theory Spec2Isabelle
  imports Complex_Main "HOL-Library.AList" "HOL-Library.Multiset" "HOL-Library.Sublist"
    "HOL-Library.Char_ord" "HOL-Library.List_Lexorder"
begin

section \<open>Python values shared by the models\<close>

text \<open>
  Exceptions of the Python source are values of \<open>error\<close>; a function that may raise
  returns \<open>error + 'a\<close> with \<open>Inl\<close> for the exception.
\<close>

datatype error = IndexError | KeyError | ValueError | UnboundLocalError
  | FileNotFoundError | NotADirectoryError | IsADirectoryError | FileExistsError
  | PermissionError | OSError | ExternalError

section \<open>utils/analysis\_utils.py: get\_class\_colors\<close>

text \<open>
  A Python \<open>dict\<close> is an association list with distinct keys in insertion order.
  The assignment \<open>d[k] = v\<close> is \<open>AList.update k v d\<close>: a key already present keeps
  its position and takes the new value, a new key is appended.

  \<open>sns.color_palette\<close> and \<open>rgb2hex\<close> belong to seaborn and matplotlib. The model
  takes the palette's colour sequence \<open>cmap = sns.color_palette(palette, len(classes_list))\<close>
  and the function \<open>rgb2hex\<close> as parameters. \<open>cmap[index]\<close> raises IndexError when the
  palette is shorter than the class list.
\<close>

fun class_colors_loop ::
  "('c \<Rightarrow> string) \<Rightarrow> 'c list \<Rightarrow> ('k \<times> string) list \<Rightarrow> (nat \<times> 'k) list
    \<Rightarrow> error + ('k \<times> string) list" where
  "class_colors_loop rgb2hex cmap class_colors [] = Inr class_colors"
| "class_colors_loop rgb2hex cmap class_colors ((index, class_name) # rest) =
     (if index < length cmap
      then class_colors_loop rgb2hex cmap
             (AList.update class_name (rgb2hex (cmap ! index)) class_colors) rest
      else Inl IndexError)"

definition get_class_colors ::
  "('c \<Rightarrow> string) \<Rightarrow> 'c list \<Rightarrow> 'k list \<Rightarrow> error + ('k \<times> string) list" where
  "get_class_colors rgb2hex cmap classes_list =
     class_colors_loop rgb2hex cmap [] (enumerate 0 classes_list)"

text \<open>A hex colour string of the form \<open>#rrggbb\<close>.\<close>

definition is_hex_digit :: "char \<Rightarrow> bool" where
  "is_hex_digit ch = (ch \<in> set ''0123456789abcdef'')"

definition is_hex_color :: "string \<Rightarrow> bool" where
  "is_hex_color s = (case s of
      [] \<Rightarrow> False
    | h # ds \<Rightarrow> h = CHR ''#'' \<and> length ds = 6 \<and> list_all is_hex_digit ds)"

section \<open>1.idr\_streams/streams/dp\_streams.py: the extraction driver\<close>

subsection \<open>The dataset name\<close>

text \<open>
  Python's \<open>s.replace(old, new)\<close> for a non-empty \<open>old\<close>: scanning from the left, every
  occurrence of \<open>old\<close> that does not overlap an earlier one is replaced by \<open>new\<close>.
  For an empty \<open>old\<close>, \<open>new\<close> is inserted before every character and at the end.
\<close>

fun replace_scan :: "string \<Rightarrow> string \<Rightarrow> string \<Rightarrow> string" where
  "replace_scan old new [] = []"
| "replace_scan old new (c # cs) =
     (if prefix old (c # cs)
      then new @ replace_scan old new (drop (length old - 1) cs)
      else c # replace_scan old new cs)"

definition str_replace :: "string \<Rightarrow> string \<Rightarrow> string \<Rightarrow> string" where
  "str_replace s old new =
     (if old = [] then new @ concat (map (\<lambda>c. c # new) s) else replace_scan old new s)"

text \<open>Line 39: \<open>data_name = data_locations_path.name.replace("_locations.tsv", "_data")\<close>.\<close>

definition data_name :: "string \<Rightarrow> string" where
  "data_name file_name = str_replace file_name ''_locations.tsv'' ''_data''"

subsection \<open>The run call\<close>

text \<open>
  The keyword arguments of \<open>stream.run_dp_stream\<close> (lines 81 to 92). \<open>extra_metadata\<close> is
  \<open>None\<close> when the call does not pass the argument.
\<close>

record run_dp_stream_call =
  batch_size :: nat
  start_batch :: nat
  batch_nums :: "nat list"
  extra_metadata :: "string list option"

definition run_call :: "string \<Rightarrow> run_dp_stream_call" where
  "run_call dname =
     (if dname = ''training_data''
      then \<lparr>batch_size = 3, start_batch = 0, batch_nums = [0],
            extra_metadata = Some [''object_outlines'']\<rparr>
      else \<lparr>batch_size = 3, start_batch = 0, batch_nums = [0],
            extra_metadata = None\<rparr>)"

subsection \<open>The file system and the cleanup\<close>

text \<open>
  A path is the list of its components, relative to the working directory.
  \<open>shutil.rmtree\<close>, \<open>Path.unlink\<close> and \<open>Path.mkdir\<close> belong to the Python library and act on
  the file system of the machine. The model knows a file system only by how it answers:
  what is at a path (\<open>lstat\<close>; \<open>None\<close> when nothing is there), and for each of the three
  calls, with the flags the driver can pass, the file system after the call or the
  exception raised. Nothing is fixed about these answers; what the library documents
  about a call is a hypothesis of the theorem that needs it.
\<close>

type_synonym path = "string list"

datatype node = File | Dir | LinkToDir

codatatype filesystem = FileSystem
  (lstat: "path \<Rightarrow> node option")
  (rmtree: "path \<Rightarrow> bool \<Rightarrow> error + filesystem")
  (unlink: "path \<Rightarrow> bool \<Rightarrow> error + filesystem")
  (mkdir: "path \<Rightarrow> bool \<Rightarrow> bool \<Rightarrow> error + filesystem")

text \<open>
  \<open>rmtree fs p ignore_errors\<close> is \<open>shutil.rmtree(p, ignore_errors=...)\<close>,
  \<open>unlink fs p missing_ok\<close> is \<open>p.unlink(missing_ok=...)\<close> and
  \<open>mkdir fs p parents exist_ok\<close> is \<open>p.mkdir(parents=..., exist_ok=...)\<close>.

  Lines 42 to 53 of the loop body: the paths of one dataset and the cleanup. The three
  calls are made one after the other, with no condition; an exception ends the run.
\<close>

definition tmp_dir :: path where
  "tmp_dir = [''tmp'']"

definition final_data_dir :: "string \<Rightarrow> path" where
  "final_data_dir dname = [''..'', ''extracted_features'', dname, ''DP_features'']"

definition log_file_path :: "string \<Rightarrow> path" where
  "log_file_path dname = [''logs'', dname, ''dp_idrstream.log'']"

definition cleanup :: "string \<Rightarrow> filesystem \<Rightarrow> error + filesystem" where
  "cleanup dname fs =
     (case rmtree fs tmp_dir True of
        Inl e \<Rightarrow> Inl e
      | Inr fs1 \<Rightarrow>
         (case unlink fs1 (log_file_path dname) True of
            Inl e \<Rightarrow> Inl e
          | Inr fs2 \<Rightarrow> mkdir fs2 (butlast (log_file_path dname)) True True))"

subsection \<open>An example of a file system\<close>

text \<open>
  The file systems used as concrete inputs: a map from paths to directories, regular files
  and links to directories that lie elsewhere, in which the system permits every
  deletion. Resolving a path walks its parent components: a missing one is a
  FileNotFoundError, a regular file a NotADirectoryError; directories and links to
  directories are passed through.
\<close>

fun walk :: "(path \<Rightarrow> node option) \<Rightarrow> path list \<Rightarrow> error option" where
  "walk m [] = None"
| "walk m (q # qs) =
     (case m q of
        None \<Rightarrow> Some FileNotFoundError
      | Some File \<Rightarrow> Some NotADirectoryError
      | Some Dir \<Rightarrow> walk m qs
      | Some LinkToDir \<Rightarrow> walk m qs)"

definition parents :: "path \<Rightarrow> path list" where
  "parents p = butlast (tl (prefixes p))"

text \<open>
  \<open>shutil.rmtree\<close> removes a directory with everything below it and refuses a symbolic
  link (OSError) and a regular file (NotADirectoryError); with \<open>ignore_errors\<close> the
  refusal is silent and nothing changes.
\<close>

definition posix_rmtree ::
  "(path \<Rightarrow> node option) \<Rightarrow> path \<Rightarrow> bool \<Rightarrow> error + (path \<Rightarrow> node option)" where
  "posix_rmtree m p ignore_errors =
     (case (case walk m (parents p) of
              Some e \<Rightarrow> Inl e
            | None \<Rightarrow>
               (case m p of
                  None \<Rightarrow> Inl FileNotFoundError
                | Some File \<Rightarrow> Inl NotADirectoryError
                | Some LinkToDir \<Rightarrow> Inl OSError
                | Some Dir \<Rightarrow> Inr (\<lambda>q. if prefix p q then None else m q))) of
        Inl e \<Rightarrow> if ignore_errors then Inr m else Inl e
      | Inr m' \<Rightarrow> Inr m')"

text \<open>
  \<open>Path.unlink\<close> removes a regular file or a link and raises on a directory; with
  \<open>missing_ok\<close> a FileNotFoundError, and no other exception, is silent.
\<close>

definition posix_unlink ::
  "(path \<Rightarrow> node option) \<Rightarrow> path \<Rightarrow> bool \<Rightarrow> error + (path \<Rightarrow> node option)" where
  "posix_unlink m p missing_ok =
     (case (case walk m (parents p) of
              Some e \<Rightarrow> Inl e
            | None \<Rightarrow>
               (case m p of
                  None \<Rightarrow> Inl FileNotFoundError
                | Some Dir \<Rightarrow> Inl IsADirectoryError
                | Some File \<Rightarrow> Inr (\<lambda>q. if prefix p q then None else m q)
                | Some LinkToDir \<Rightarrow> Inr (\<lambda>q. if prefix p q then None else m q))) of
        Inl e \<Rightarrow> if missing_ok \<and> e = FileNotFoundError then Inr m else Inl e
      | Inr m' \<Rightarrow> Inr m')"

text \<open>
  \<open>Path.mkdir\<close> creates one directory. With \<open>parents\<close> the missing ancestors are created
  first; with \<open>exist_ok\<close> an existing directory at the path is accepted.
\<close>

fun make_dirs :: "(path \<Rightarrow> node option) \<Rightarrow> path list \<Rightarrow> error + (path \<Rightarrow> node option)" where
  "make_dirs m [] = Inr m"
| "make_dirs m (q # qs) =
     (case m q of
        None \<Rightarrow> make_dirs (m(q \<mapsto> Dir)) qs
      | Some File \<Rightarrow> Inl NotADirectoryError
      | Some Dir \<Rightarrow> make_dirs m qs
      | Some LinkToDir \<Rightarrow> make_dirs m qs)"

definition posix_mkdir ::
  "(path \<Rightarrow> node option) \<Rightarrow> path \<Rightarrow> bool \<Rightarrow> bool \<Rightarrow> error + (path \<Rightarrow> node option)" where
  "posix_mkdir m p with_parents exist_ok =
     (case (if with_parents then make_dirs m (parents p)
            else (case walk m (parents p) of Some e \<Rightarrow> Inl e | None \<Rightarrow> Inr m)) of
        Inl e \<Rightarrow> Inl e
      | Inr m' \<Rightarrow>
         (case m' p of
            None \<Rightarrow> Inr (m'(p \<mapsto> Dir))
          | Some File \<Rightarrow> Inl FileExistsError
          | Some Dir \<Rightarrow> if exist_ok then Inr m' else Inl FileExistsError
          | Some LinkToDir \<Rightarrow> if exist_ok then Inr m' else Inl FileExistsError))"

primcorec posix :: "(path \<Rightarrow> node option) \<Rightarrow> filesystem" where
  "posix m = FileSystem m
     (\<lambda>p ignore_errors. map_sum id posix (posix_rmtree m p ignore_errors))
     (\<lambda>p missing_ok. map_sum id posix (posix_unlink m p missing_ok))
     (\<lambda>p with_parents exist_ok. map_sum id posix (posix_mkdir m p with_parents exist_ok))"

subsection \<open>One iteration and the loop\<close>

text \<open>
  \<open>DeepProfilerRun\<close> and its methods belong to the IDR\_stream library. The model takes the
  whole pipeline of one dataset (construction, the four initialisations, the copy of the
  DeepProfiler files, reading the locations table and \<open>run_dp_stream\<close>) as the parameter
  \<open>stream\<close>: from the dataset's paths, the run call and the file system it gives the new
  file system or the exception it raises.
\<close>

record stream_paths =
  sp_tmp_dir :: path
  sp_final_data_dir :: path
  sp_log :: path
  sp_data_locations :: string

definition driver_iteration ::
  "(stream_paths \<Rightarrow> run_dp_stream_call \<Rightarrow> filesystem \<Rightarrow> error + filesystem)
    \<Rightarrow> string \<Rightarrow> filesystem \<Rightarrow> error + filesystem" where
  "driver_iteration stream file_name fs =
     (let dname = data_name file_name in
      case cleanup dname fs of
        Inl e \<Rightarrow> Inl e
      | Inr fs' \<Rightarrow>
          stream \<lparr>sp_tmp_dir = tmp_dir, sp_final_data_dir = final_data_dir dname,
                   sp_log = log_file_path dname, sp_data_locations = file_name\<rparr>
            (run_call dname) fs')"

fun driver_loop ::
  "(stream_paths \<Rightarrow> run_dp_stream_call \<Rightarrow> filesystem \<Rightarrow> error + filesystem)
    \<Rightarrow> string list \<Rightarrow> filesystem \<Rightarrow> error + filesystem" where
  "driver_loop stream [] fs = Inr fs"
| "driver_loop stream (file_name # rest) fs =
     (case driver_iteration stream file_name fs of
        Inl e \<Rightarrow> Inl e
      | Inr fs' \<Rightarrow> driver_loop stream rest fs')"

text \<open>Line 37: the loop runs over the sorted entries of the locations directory.\<close>

definition dp_streams ::
  "(stream_paths \<Rightarrow> run_dp_stream_call \<Rightarrow> filesystem \<Rightarrow> error + filesystem)
    \<Rightarrow> string list \<Rightarrow> filesystem \<Rightarrow> error + filesystem" where
  "dp_streams stream entries fs = driver_loop stream (sort entries) fs"

section \<open>utils/analysis\_utils.py: embeddings and plots\<close>

subsection \<open>Arrays, series and tables\<close>

text \<open>
  A NumPy matrix is the list of its rows. A cell of a pandas table is a number, a
  string, or a missing value: \<open>None\<close> or \<open>NaN\<close>. Class labels are cells. A \<open>pd.Series\<close>
  carries the row index of its values; the metadata series passed by the caller is its
  name and its values in order (\<open>.name\<close> and \<open>.tolist()\<close>). A \<open>pd.DataFrame\<close> is its row
  index and its columns in order, a column assignment being \<open>AList.update\<close> as for a dict.
\<close>

type_synonym ndarray = "real list list"

datatype cell = Num real | Str string | NoneVal | NaN

text \<open>
  The comparison \<open>column == value\<close> of pandas, for one cell of the column: a missing
  value is equal to nothing, not even to itself, so the comparison with a missing value
  is False on every row.
\<close>

definition is_missing :: "cell \<Rightarrow> bool" where
  "is_missing v = (v = NoneVal \<or> v = NaN)"

definition pd_eq :: "cell \<Rightarrow> cell \<Rightarrow> bool" where
  "pd_eq v w = (\<not> is_missing v \<and> \<not> is_missing w \<and> v = w)"

record series =
  s_index :: "nat list"
  s_values :: "cell list"

record metadata_series =
  md_name :: string
  md_values :: "cell list"

record dataframe =
  df_index :: "nat list"
  df_columns :: "(string \<times> cell list) list"

text \<open>
  \<open>pd.DataFrame(array, columns=names)\<close> raises ValueError when the array does not have one
  column per name; the rows are indexed from 0.
\<close>

definition DataFrame :: "ndarray \<Rightarrow> string list \<Rightarrow> error + dataframe" where
  "DataFrame array names =
     (if list_all (\<lambda>row. length row = length names) array
      then Inr \<lparr>df_index = [0..<length array],
                df_columns = map (\<lambda>j. (names ! j, map (\<lambda>row. Num (row ! j)) array))
                               [0..<length names]\<rparr>
      else Inl ValueError)"

text \<open>\<open>df[name] = values\<close> raises ValueError when the list is not as long as the index.\<close>

definition df_setitem :: "dataframe \<Rightarrow> string \<Rightarrow> cell list \<Rightarrow> error + dataframe" where
  "df_setitem df name vals =
     (if length vals = length (df_index df)
      then Inr (df\<lparr>df_columns := AList.update name vals (df_columns df)\<rparr>)
      else Inl ValueError)"

text \<open>\<open>df[name]\<close> raises KeyError for a missing column.\<close>

definition df_getitem :: "dataframe \<Rightarrow> string \<Rightarrow> error + series" where
  "df_getitem df name =
     (case map_of (df_columns df) name of
        None \<Rightarrow> Inl KeyError
      | Some vals \<Rightarrow> Inr \<lparr>s_index = df_index df, s_values = vals\<rparr>)"

fun df_getitems :: "dataframe \<Rightarrow> string list \<Rightarrow> error + series list" where
  "df_getitems df [] = Inr []"
| "df_getitems df (name # names) =
     (case df_getitem df name of
        Inl e \<Rightarrow> Inl e
      | Inr s \<Rightarrow> (case df_getitems df names of Inl e \<Rightarrow> Inl e | Inr ss \<Rightarrow> Inr (s # ss)))"

text \<open>\<open>df.loc[mask]\<close> keeps the rows where the boolean mask holds, with their index.\<close>

definition select :: "bool list \<Rightarrow> 'a list \<Rightarrow> 'a list" where
  "select keep xs = map snd (filter fst (zip keep xs))"

definition df_loc :: "dataframe \<Rightarrow> bool list \<Rightarrow> dataframe" where
  "df_loc df keep =
     \<lparr>df_index = select keep (df_index df),
      df_columns = map (\<lambda>(name, vals). (name, select keep vals)) (df_columns df)\<rparr>"

text \<open>
  \<open>Series.unique()\<close>: the distinct values in the order of their first appearance. Missing
  values are kept, each kind once.
\<close>

fun unique :: "'a list \<Rightarrow> 'a list" where
  "unique [] = []"
| "unique (x # xs) = x # unique (filter (\<lambda>y. y \<noteq> x) xs)"

subsection \<open>get\_2D\_umap\_embeddings and show\_2D\_umap\_from\_embeddings\<close>

text \<open>
  \<open>umap.UMAP(random_state, n_components).fit_transform\<close> belongs to the UMAP library and is
  the parameter \<open>fit_transform\<close>: from the random state, the number of components and the
  feature matrix it gives the embedding matrix or raises. Lines 34 to 38 transpose the
  embedding and take rows 0 and 1 of the transpose, that is columns 0 and 1 of the
  embedding; a missing column is an IndexError.
\<close>

definition get_2D_umap_embeddings ::
  "(int \<Rightarrow> nat \<Rightarrow> ndarray \<Rightarrow> error + ndarray) \<Rightarrow> ndarray \<Rightarrow> int
    \<Rightarrow> error + (real list \<times> real list)" where
  "get_2D_umap_embeddings fit_transform feature_data random_state =
     (case fit_transform random_state 2 feature_data of
        Inl e \<Rightarrow> Inl e
      | Inr embedding \<Rightarrow>
          if list_all (\<lambda>row. 2 \<le> length row) embedding
          then Inr (map (\<lambda>row. row ! 0) embedding, map (\<lambda>row. row ! 1) embedding)
          else Inl IndexError)"

text \<open>
  What a Python function returns: \<open>None\<close> when it has no \<open>return\<close> statement, or a table.
\<close>

datatype pyvalue = PyNone | PyDataFrame dataframe

text \<open>
  The figure drawn by \<open>show_2D_umap_from_embeddings\<close>: the arguments of the seaborn
  scatter plot, the legend title, the axis labels, the title and the path saved to.
  seaborn raises ValueError when the coordinate vectors and the hue list differ in length.
\<close>

record hue_figure =
  hf_palette :: string
  hf_x :: "real list"
  hf_y :: "real list"
  hf_hue :: "cell list"
  hf_alpha :: real
  hf_s :: int
  hf_legend_title :: string
  hf_xlabel :: string
  hf_ylabel :: string
  hf_title :: string
  hf_saved :: "string option"

definition show_2D_umap_from_embeddings ::
  "real list \<Rightarrow> real list \<Rightarrow> metadata_series \<Rightarrow> string option \<Rightarrow> int \<Rightarrow> real \<Rightarrow> string
    \<Rightarrow> error + (hue_figure \<times> pyvalue)" where
  "show_2D_umap_from_embeddings x_data y_data metadata save_path point_size alpha palette =
     (if length y_data = length x_data \<and> length (md_values metadata) = length x_data
      then Inr (\<lparr>hf_palette = palette, hf_x = x_data, hf_y = y_data,
                 hf_hue = md_values metadata, hf_alpha = alpha, hf_s = point_size,
                 hf_legend_title = md_name metadata,
                 hf_xlabel = ''UMAP 1'', hf_ylabel = ''UMAP 2'',
                 hf_title = ''2 Dimensional UMAP'', hf_saved = save_path\<rparr>, PyNone)
      else Inl ValueError)"

subsection \<open>The class-coloured plots\<close>

text \<open>
  A legend handle \<open>Line2D([0], [0], marker="o", color="w", label, markerfacecolor,
  markersize=10)\<close> and a call \<open>ax.scatter(x, y[, z], c=color, marker="o", alpha, s)\<close>.
\<close>

record legend_element =
  label :: cell
  markerfacecolor :: string

record scatter_call =
  sc_coords :: "series list"
  sc_c :: string
  sc_alpha :: real
  sc_s :: int

text \<open>
  The variables the loop over the classes changes. \<open>color\<close> is unbound (\<open>None\<close>) until the
  first iteration assigns it.
\<close>

record loop_state =
  legend_elements :: "legend_element list"
  other_classes_exist :: bool
  color :: "string option"
  scatters :: "scatter_call list"

text \<open>
  The loop body is the same text in \<open>show_1D_umap\<close> (lines 171 to 198), \<open>show_2D_umap\<close>
  (lines 271 to 298) and \<open>show_3D_umap\<close> (lines 373 to 401) except for the coordinate
  columns handed to \<open>scatter\<close>, the parameter \<open>coords\<close>. The rows of a class are those
  where \<open>embedding[name] == metadata_class\<close> holds. The test
  \<open>metadata_class in class_colors.keys()\<close> and the lookup \<open>class_colors[metadata_class]\<close>
  are one \<open>map_of\<close>; a missing label is looked up like any other key, as Python finds
  \<open>None\<close> and the \<open>NaN\<close> object of a label series among the keys of a dict. The values of
  \<open>class_colors\<close> are colours that matplotlib accepts, as
  the docstrings ask; what \<open>scatter\<close> does with another string is not part of the model.
\<close>

fun class_loop ::
  "string list \<Rightarrow> dataframe \<Rightarrow> string \<Rightarrow> (cell \<times> string) list \<Rightarrow> real \<Rightarrow> int
    \<Rightarrow> cell list \<Rightarrow> loop_state \<Rightarrow> error + loop_state" where
  "class_loop coords embedding name class_colors alpha point_size [] st = Inr st"
| "class_loop coords embedding name class_colors alpha point_size (metadata_class # rest) st =
     (case df_getitem embedding name of
        Inl e \<Rightarrow> Inl e
      | Inr labels \<Rightarrow>
         (case df_getitems
                 (df_loc embedding (map (\<lambda>v. pd_eq v metadata_class) (s_values labels))) coords of
            Inl e \<Rightarrow> Inl e
          | Inr xyz \<Rightarrow>
             (case map_of class_colors metadata_class of
                Some c \<Rightarrow>
                  class_loop coords embedding name class_colors alpha point_size rest
                    (st\<lparr>legend_elements := legend_elements st @
                           [\<lparr>label = metadata_class, markerfacecolor = c\<rparr>],
                        color := Some c,
                        scatters := scatters st @
                           [\<lparr>sc_coords = xyz, sc_c = c, sc_alpha = alpha,
                             sc_s = point_size\<rparr>]\<rparr>)
              | None \<Rightarrow>
                  class_loop coords embedding name class_colors alpha point_size rest
                    (st\<lparr>other_classes_exist := True,
                        color := Some ''#808080'',
                        scatters := scatters st @
                           [\<lparr>sc_coords = xyz, sc_c = ''#808080'', sc_alpha = alpha,
                             sc_s = point_size\<rparr>]\<rparr>))))"

text \<open>
  After the loop: the \<open>Other\<close> handle is appended when the flag is set, with the value the
  variable \<open>color\<close> has then. Reading an unbound \<open>color\<close> would be an UnboundLocalError.
\<close>

definition add_other :: "loop_state \<Rightarrow> error + legend_element list" where
  "add_other st =
     (if other_classes_exist st
      then (case color st of
              None \<Rightarrow> Inl UnboundLocalError
            | Some c \<Rightarrow> Inr (legend_elements st @ [\<lparr>label = Str ''Other'', markerfacecolor = c\<rparr>]))
      else Inr (legend_elements st))"

record figure =
  fig_scatter :: "scatter_call list"
  fig_legend :: "legend_element list"
  fig_xlabel :: string
  fig_ylabel :: string
  fig_zlabel :: "string option"
  fig_title :: string
  fig_saved :: "string option"

definition initial_state :: loop_state where
  "initial_state = \<lparr>legend_elements = [], other_classes_exist = False, color = None,
                     scatters = []\<rparr>"

text \<open>
  The loop over \<open>embedding[metadata_series.name].unique().tolist()\<close> and the legend.
\<close>

definition plot_classes ::
  "string list \<Rightarrow> dataframe \<Rightarrow> string \<Rightarrow> (cell \<times> string) list \<Rightarrow> real \<Rightarrow> int
    \<Rightarrow> error + (scatter_call list \<times> legend_element list)" where
  "plot_classes coords embedding name class_colors alpha point_size =
     (case df_getitem embedding name of
        Inl e \<Rightarrow> Inl e
      | Inr labels \<Rightarrow>
         (case class_loop coords embedding name class_colors alpha point_size
                 (unique (s_values labels)) initial_state of
            Inl e \<Rightarrow> Inl e
          | Inr st \<Rightarrow>
             (case add_other st of
                Inl e \<Rightarrow> Inl e
              | Inr handles \<Rightarrow> Inr (scatters st, handles))))"

text \<open>
  The embedding table of each function: the UMAP embedding with random state 0 as a table
  with the columns \<open>UMAP1\<close>, ..., then the column of the metadata under the series' name.
\<close>

definition embedding_table ::
  "(int \<Rightarrow> nat \<Rightarrow> ndarray \<Rightarrow> error + ndarray) \<Rightarrow> nat \<Rightarrow> string list \<Rightarrow> ndarray
    \<Rightarrow> metadata_series \<Rightarrow> error + dataframe" where
  "embedding_table fit_transform n_components names feature_data metadata =
     (case fit_transform 0 n_components feature_data of
        Inl e \<Rightarrow> Inl e
      | Inr array \<Rightarrow>
         (case DataFrame array names of
            Inl e \<Rightarrow> Inl e
          | Inr embedding \<Rightarrow> df_setitem embedding (md_name metadata) (md_values metadata)))"

text \<open>
  \<open>show_1D_umap\<close> adds the column \<open>y_distribution\<close> of \<open>np.random.rand(feature_data.shape[0])\<close>;
  the random generator is the parameter \<open>rand\<close>. It has no \<open>return\<close> statement.
\<close>

definition show_1D_umap ::
  "(int \<Rightarrow> nat \<Rightarrow> ndarray \<Rightarrow> error + ndarray) \<Rightarrow> (nat \<Rightarrow> real list) \<Rightarrow> ndarray
    \<Rightarrow> metadata_series \<Rightarrow> (cell \<times> string) list \<Rightarrow> string option \<Rightarrow> int \<Rightarrow> real
    \<Rightarrow> error + (figure \<times> pyvalue)" where
  "show_1D_umap fit_transform rand feature_data metadata class_colors save_path point_size alpha =
     (case embedding_table fit_transform 1 [''UMAP1''] feature_data metadata of
        Inl e \<Rightarrow> Inl e
      | Inr embedding0 \<Rightarrow>
         (case df_setitem embedding0 ''y_distribution''
                 (map Num (rand (length feature_data))) of
            Inl e \<Rightarrow> Inl e
          | Inr embedding \<Rightarrow>
             (case plot_classes [''UMAP1'', ''y_distribution''] embedding (md_name metadata)
                     class_colors alpha point_size of
                Inl e \<Rightarrow> Inl e
              | Inr (calls, handles) \<Rightarrow>
                  Inr (\<lparr>fig_scatter = calls, fig_legend = handles,
                        fig_xlabel = ''UMAP 1'', fig_ylabel = ''Random Distribution'',
                        fig_zlabel = None, fig_title = ''1 Dimensional UMAP'',
                        fig_saved = save_path\<rparr>, PyNone))))"

text \<open>\<open>show_2D_umap\<close> ends with \<open>return embedding\<close>.\<close>

definition show_2D_umap ::
  "(int \<Rightarrow> nat \<Rightarrow> ndarray \<Rightarrow> error + ndarray) \<Rightarrow> ndarray
    \<Rightarrow> metadata_series \<Rightarrow> (cell \<times> string) list \<Rightarrow> string option \<Rightarrow> int \<Rightarrow> real
    \<Rightarrow> error + (figure \<times> pyvalue)" where
  "show_2D_umap fit_transform feature_data metadata class_colors save_path point_size alpha =
     (case embedding_table fit_transform 2 [''UMAP1'', ''UMAP2''] feature_data metadata of
        Inl e \<Rightarrow> Inl e
      | Inr embedding \<Rightarrow>
         (case plot_classes [''UMAP1'', ''UMAP2''] embedding (md_name metadata)
                 class_colors alpha point_size of
            Inl e \<Rightarrow> Inl e
          | Inr (calls, handles) \<Rightarrow>
              Inr (\<lparr>fig_scatter = calls, fig_legend = handles,
                    fig_xlabel = ''UMAP 1'', fig_ylabel = ''UMAP 2'',
                    fig_zlabel = None, fig_title = ''2 Dimensional UMAP'',
                    fig_saved = save_path\<rparr>, PyDataFrame embedding)))"

definition show_3D_umap ::
  "(int \<Rightarrow> nat \<Rightarrow> ndarray \<Rightarrow> error + ndarray) \<Rightarrow> ndarray
    \<Rightarrow> metadata_series \<Rightarrow> (cell \<times> string) list \<Rightarrow> string option \<Rightarrow> int \<Rightarrow> real
    \<Rightarrow> error + (figure \<times> pyvalue)" where
  "show_3D_umap fit_transform feature_data metadata class_colors save_path point_size alpha =
     (case embedding_table fit_transform 3 [''UMAP1'', ''UMAP2'', ''UMAP3''] feature_data
             metadata of
        Inl e \<Rightarrow> Inl e
      | Inr embedding \<Rightarrow>
         (case plot_classes [''UMAP1'', ''UMAP2'', ''UMAP3''] embedding (md_name metadata)
                 class_colors alpha point_size of
            Inl e \<Rightarrow> Inl e
          | Inr (calls, handles) \<Rightarrow>
              Inr (\<lparr>fig_scatter = calls, fig_legend = handles,
                    fig_xlabel = ''UMAP 1'', fig_ylabel = ''UMAP 2'',
                    fig_zlabel = Some ''UMAP 3'', fig_title = ''3 Dimensional UMAP'',
                    fig_saved = save_path\<rparr>, PyNone)))"

text \<open>The rows of the embedding a scatter call draws: the index of its first coordinate.\<close>

definition scatter_rows :: "scatter_call \<Rightarrow> nat list" where
  "scatter_rows call = (case sc_coords call of [] \<Rightarrow> [] | s # _ \<Rightarrow> s_index s)"

section \<open>Properties of get\_class\_colors\<close>

lemma class_colors_loop_distinct_keys:
  "n + length xs \<le> length cmap \<Longrightarrow> distinct xs \<Longrightarrow> set xs \<inter> fst ` set d = {} \<Longrightarrow>
   class_colors_loop f cmap d (enumerate n xs) =
     Inr (d @ zip xs (map (\<lambda>i. f (cmap ! i)) [n..<n + length xs]))"
proof (induction xs arbitrary: n d)
  case Nil
  then show ?case by simp
next
  case (Cons x xs)
  have upd: "AList.update x (f (cmap ! n)) d = d @ [(x, f (cmap ! n))]"
    using Cons.prems(3) by (induction d) auto
  have "class_colors_loop f cmap (d @ [(x, f (cmap ! n))]) (enumerate (Suc n) xs) =
      Inr ((d @ [(x, f (cmap ! n))]) @ zip xs (map (\<lambda>i. f (cmap ! i)) [Suc n..<Suc n + length xs]))"
    using Cons.prems by (intro Cons.IH) auto
  moreover have "[n..<n + length (x # xs)] = n # [Suc n..<Suc n + length xs]"
    by (simp add: upt_conv_Cons del: upt_Suc)
  ultimately show ?case using Cons.prems upd by (simp del: upt_Suc)
qed

lemma class_colors_loop_returns:
  "n + length xs \<le> length cmap \<Longrightarrow> \<exists>r. class_colors_loop f cmap d (enumerate n xs) = Inr r"
  by (induction xs arbitrary: n d) auto

lemma class_colors_loop_keys:
  "class_colors_loop f cmap d (enumerate n xs) = Inr r \<Longrightarrow>
   fst ` set r = fst ` set d \<union> set xs"
  by (induction xs arbitrary: n d) (auto simp: dom_update split: if_splits)

lemma class_colors_loop_distinct:
  "class_colors_loop f cmap d (enumerate n xs) = Inr r \<Longrightarrow> distinct (map fst d) \<Longrightarrow>
   distinct (map fst r)"
  by (induction xs arbitrary: n d) (auto simp: distinct_update split: if_splits)

lemma class_colors_loop_keeps:
  "class_colors_loop f cmap d (enumerate n xs) = Inr r \<Longrightarrow> k \<notin> set xs \<Longrightarrow>
   map_of r k = map_of d k"
  by (induction xs arbitrary: n d) (auto simp: update_conv' split: if_splits)

lemma class_colors_loop_last:
  "class_colors_loop f cmap d (enumerate n xs) = Inr r \<Longrightarrow> i < length xs \<Longrightarrow>
   (\<forall>j. i < j \<and> j < length xs \<longrightarrow> xs ! j \<noteq> xs ! i) \<Longrightarrow>
   map_of r (xs ! i) = Some (f (cmap ! (n + i)))"
proof (induction xs arbitrary: n d i)
  case Nil
  then show ?case by simp
next
  case (Cons x xs)
  from Cons.prems(1) have lt: "n < length cmap" and
    rec: "class_colors_loop f cmap (AList.update x (f (cmap ! n)) d) (enumerate (Suc n) xs) = Inr r"
    by (auto split: if_splits)
  show ?case
  proof (cases i)
    case 0
    have "x \<notin> set xs"
    proof
      assume "x \<in> set xs"
      then obtain j where "j < length xs" "xs ! j = x" by (auto simp: in_set_conv_nth)
      with Cons.prems(3) 0 show False by (auto dest: spec[of _ "Suc j"])
    qed
    with rec have "map_of r x = map_of (AList.update x (f (cmap ! n)) d) x"
      by (rule class_colors_loop_keeps)
    then show ?thesis using 0 by (simp add: update_conv')
  next
    case (Suc i')
    have "\<forall>j. i' < j \<and> j < length xs \<longrightarrow> xs ! j \<noteq> xs ! i'"
    proof (intro allI impI)
      fix j assume "i' < j \<and> j < length xs"
      with Cons.prems(3) Suc show "xs ! j \<noteq> xs ! i'" by (auto dest: spec[of _ "Suc j"])
    qed
    with rec Suc Cons.prems(2) have "map_of r (xs ! i') = Some (f (cmap ! (Suc n + i')))"
      by (intro Cons.IH) auto
    then show ?thesis using Suc by simp
  qed
qed


text \<open>
  Claim C9. When the class list contains a name more than once (and the palette has one
  colour per list position), \<open>get_class_colors\<close> returns a mapping with fewer entries than
  the list is long: one entry per distinct name. A name is mapped to the palette colour of
  its last position in the list.
\<close>

theorem get_class_colors_duplicates:
  assumes "length cmap = length classes_list" and "\<not> distinct classes_list"
  shows "\<exists>class_colors. get_class_colors rgb2hex cmap classes_list = Inr class_colors
     \<and> length class_colors < length classes_list
     \<and> length class_colors = card (set classes_list)
     \<and> distinct (map fst class_colors)
     \<and> fst ` set class_colors = set classes_list
     \<and> (\<forall>i < length classes_list.
          (\<forall>j. i < j \<and> j < length classes_list \<longrightarrow> classes_list ! j \<noteq> classes_list ! i)
          \<longrightarrow> map_of class_colors (classes_list ! i) = Some (rgb2hex (cmap ! i)))"
proof -
  from assms(1) obtain r where r: "class_colors_loop rgb2hex cmap [] (enumerate 0 classes_list) = Inr r"
    using class_colors_loop_returns [of 0 classes_list cmap rgb2hex "[]"] by auto
  have keys: "fst ` set r = set classes_list"
    using class_colors_loop_keys [OF r] by simp
  have dist: "distinct (map fst r)"
    using class_colors_loop_distinct [OF r] by simp
  have "length r = length (map fst r)" by simp
  also have "\<dots> = card (set (map fst r))"
    using dist by (simp only: distinct_card)
  also have "\<dots> = card (set classes_list)"
    using keys by simp
  finally have len: "length r = card (set classes_list)" .
  have "card (set classes_list) < length classes_list"
    using assms(2) card_length [of classes_list] card_distinct [of classes_list]
    by (cases "card (set classes_list) = length classes_list") auto
  with len have less: "length r < length classes_list" by simp
  have lastpos: "\<forall>i < length classes_list.
          (\<forall>j. i < j \<and> j < length classes_list \<longrightarrow> classes_list ! j \<noteq> classes_list ! i)
          \<longrightarrow> map_of r (classes_list ! i) = Some (rgb2hex (cmap ! i))"
    using class_colors_loop_last [OF r] by auto
  show ?thesis
    unfolding get_class_colors_def using r less len dist keys lastpos by blast
qed

theorem get_class_colors_duplicates_witness:
  "get_class_colors id [''#ff0000'', ''#00ff00'', ''#0000ff''] [''a'', ''b'', ''a'']
     = Inr [(''a'', ''#0000ff''), (''b'', ''#00ff00'')]"
proof -
  have h1: "length [''#ff0000'', ''#00ff00'', ''#0000ff''] = length [''a'', ''b'', ''a'']"
    by simp
  have h2: "\<not> distinct [''a'', ''b'', ''a'']" by simp
  have ev: "get_class_colors id [''#ff0000'', ''#00ff00'', ''#0000ff''] [''a'', ''b'', ''a'']
     = Inr [(''a'', ''#0000ff''), (''b'', ''#00ff00'')]"
    by (simp add: get_class_colors_def enumerate_eq_zip)
  show ?thesis
    using get_class_colors_duplicates [OF h1 h2, of id]
    by (simp only: ev)
qed

text \<open>
  Claim C1, amended. For N pairwise distinct class names and a palette of N distinct colours
  that \<open>rgb2hex\<close> renders as distinct hex strings of the form \<open>#rrggbb\<close>,
  \<open>get_class_colors\<close> returns a mapping with exactly N entries, in the order of the list,
  every value a valid hex colour string, every class assigned the palette colour at its
  position, and no two classes mapped to the same colour.
\<close>

theorem get_class_colors_distinct_classes:
  assumes "length cmap = length classes_list"
    and "distinct classes_list"
    and "distinct cmap" and "inj_on rgb2hex (set cmap)"
    and "\<forall>c \<in> set cmap. is_hex_color (rgb2hex c)"
  shows "\<exists>class_colors. get_class_colors rgb2hex cmap classes_list = Inr class_colors
     \<and> length class_colors = length classes_list
     \<and> map fst class_colors = classes_list
     \<and> (\<forall>v \<in> snd ` set class_colors. is_hex_color v)
     \<and> (\<forall>i < length classes_list.
           map_of class_colors (classes_list ! i) = Some (rgb2hex (cmap ! i)))
     \<and> distinct (map snd class_colors)"
proof -
  let ?r = "zip classes_list (map rgb2hex cmap)"
  have "class_colors_loop rgb2hex cmap [] (enumerate 0 classes_list) =
      Inr ([] @ zip classes_list (map (\<lambda>i. rgb2hex (cmap ! i)) [0..<0 + length classes_list]))"
    using assms(1,2) by (intro class_colors_loop_distinct_keys) auto
  moreover have "map (\<lambda>i. rgb2hex (cmap ! i)) [0..<0 + length classes_list] = map rgb2hex cmap"
  proof -
    have "map (\<lambda>i. rgb2hex (cmap ! i)) [0..<length cmap] =
        map rgb2hex (map ((!) cmap) [0..<length cmap])"
      by (simp add: comp_def)
    also have "\<dots> = map rgb2hex cmap"
      by (simp only: map_nth)
    finally show ?thesis using assms(1) by simp
  qed
  ultimately have r: "get_class_colors rgb2hex cmap classes_list = Inr ?r"
    by (simp add: get_class_colors_def)
  have len: "length ?r = length classes_list" using assms(1) by simp
  have keys: "map fst ?r = classes_list" using assms(1) by simp
  have vals: "map snd ?r = map rgb2hex cmap" using assms(1) by simp
  have hex: "\<forall>v \<in> snd ` set ?r. is_hex_color v"
  proof
    fix v assume "v \<in> snd ` set ?r"
    then have "v \<in> set (map snd ?r)" by simp
    then have "v \<in> rgb2hex ` set cmap" unfolding vals by simp
    with assms(5) show "is_hex_color v" by auto
  qed
  have pos: "\<forall>i < length classes_list. map_of ?r (classes_list ! i) = Some (rgb2hex (cmap ! i))"
  proof (intro allI impI)
    fix i assume i: "i < length classes_list"
    have "map_of ?r (classes_list ! i) = Some (map rgb2hex cmap ! i)"
      using assms(1,2) i by (intro map_of_zip_nth) auto
    then show "map_of ?r (classes_list ! i) = Some (rgb2hex (cmap ! i))"
      using i assms(1) by simp
  qed
  have dist: "distinct (map snd ?r)"
    unfolding vals using assms(3,4) by (simp add: distinct_map)
  from r len keys hex pos dist have
    "get_class_colors rgb2hex cmap classes_list = Inr ?r
     \<and> length ?r = length classes_list
     \<and> map fst ?r = classes_list
     \<and> (\<forall>v \<in> snd ` set ?r. is_hex_color v)
     \<and> (\<forall>i < length classes_list.
           map_of ?r (classes_list ! i) = Some (rgb2hex (cmap ! i)))
     \<and> distinct (map snd ?r)"
    by (simp only: simp_thms)
  then show ?thesis by (rule exI)
qed

theorem get_class_colors_distinct_classes_witness:
  "get_class_colors id [''#ff0000'', ''#00ff00''] [''a'', ''b'']
     = Inr [(''a'', ''#ff0000''), (''b'', ''#00ff00'')]"
proof -
  have h1: "length [''#ff0000'', ''#00ff00''] = length [''a'', ''b'']" by simp
  have h2: "distinct [''a'', ''b'']" by simp
  have h3: "distinct [''#ff0000'', ''#00ff00'']" by simp
  have h4: "inj_on id (set [''#ff0000'', ''#00ff00''])" by simp
  have h5: "\<forall>c \<in> set [''#ff0000'', ''#00ff00'']. is_hex_color (id c)"
    by (simp add: is_hex_color_def is_hex_digit_def)
  show ?thesis
    using get_class_colors_distinct_classes [OF h1 h2 h3 h4 h5]
    by (simp add: get_class_colors_def enumerate_eq_zip)
qed

text \<open>
  Without distinct class names the claim fails: for the list \<open>[a, a]\<close> and a palette of two
  distinct colours the mapping has one entry, not two, and the class at position 0 does
  not have the palette colour of position 0.
\<close>

theorem get_class_colors_repeated_name_counterexample:
  "distinct [''#ff0000'', ''#00ff00'']
   \<and> get_class_colors id [''#ff0000'', ''#00ff00''] [''a'', ''a''] = Inr [(''a'', ''#00ff00'')]
   \<and> length [(''a'', ''#00ff00'')] \<noteq> length [''a'', ''a'']
   \<and> map_of [(''a'', ''#00ff00'')] ([''a'', ''a''] ! 0) \<noteq> Some (id ([''#ff0000'', ''#00ff00''] ! 0))"
  by (simp add: get_class_colors_def enumerate_eq_zip)

section \<open>Properties of the extraction driver\<close>

lemma suffix_no_overlap:
  assumes "s \<noteq> []" and "\<not> sublist ''_locations.tsv'' s"
  shows "\<not> prefix ''_locations.tsv'' (s @ ''_locations.tsv'')"
proof
  assume "prefix ''_locations.tsv'' (s @ ''_locations.tsv'')"
  then consider "prefix ''_locations.tsv'' s"
    | us where "''_locations.tsv'' = s @ us" "prefix us ''_locations.tsv''"
    by (auto simp: prefix_append)
  then show False
  proof cases
    case 1
    then have "sublist ''_locations.tsv'' s" by (rule prefix_imp_sublist)
    with assms(2) show False by simp
  next
    case 2
    from assms(1) obtain c cs where s: "s = c # cs" by (cases s) auto
    show False
    proof (cases us)
      case Nil
      with 2(1) have "s = ''_locations.tsv''" by simp
      with assms(2) show False by simp
    next
      case (Cons u us')
      with 2(2) have u: "u = CHR ''_''" by simp
      from 2(1) s Cons have "''locations.tsv'' = cs @ u # us'" by simp
      then have "u \<in> set ''locations.tsv''"
        by (metis in_set_conv_decomp)
      with u show False by simp
    qed
  qed
qed

lemma replace_scan_suffix:
  "\<not> sublist ''_locations.tsv'' stem \<Longrightarrow>
   replace_scan ''_locations.tsv'' ''_data'' (stem @ ''_locations.tsv'') = stem @ ''_data''"
proof (induction stem)
  case Nil
  then show ?case by simp
next
  case (Cons c cs)
  have np: "\<not> prefix ''_locations.tsv'' ((c # cs) @ ''_locations.tsv'')"
    using Cons.prems by (intro suffix_no_overlap) auto
  have "\<not> sublist ''_locations.tsv'' cs"
    using Cons.prems by (auto simp: sublist_Cons_right)
  then have "replace_scan ''_locations.tsv'' ''_data'' (cs @ ''_locations.tsv'') = cs @ ''_data''"
    by (rule Cons.IH)
  with np show ?case
    by (simp del: prefix_code)
qed

text \<open>
  Claim C4, amended. For every file name that ends in \<open>_locations.tsv\<close> and contains
  \<open>_locations.tsv\<close> nowhere before that suffix, the driver derives the dataset name by
  stripping the suffix and appending \<open>_data\<close>. The name is a function of the file name, so
  each file has exactly one.
\<close>

theorem data_name_strips_suffix:
  "\<not> sublist ''_locations.tsv'' stem \<Longrightarrow>
   data_name (stem @ ''_locations.tsv'') = stem @ ''_data''"
  by (simp add: data_name_def str_replace_def replace_scan_suffix)

theorem data_name_strips_suffix_witness:
  "\<not> sublist ''_locations.tsv'' ''training'' \<and>
   data_name (''training'' @ ''_locations.tsv'') = ''training'' @ ''_data''"
proof -
  have h: "\<not> sublist ''_locations.tsv'' ''training''"
    by (simp add: sublist_code)
  show ?thesis using h data_name_strips_suffix [OF h] by simp
qed

text \<open>
  \<open>str.replace\<close> replaces every occurrence, not only the suffix: the file name
  \<open>x_locations.tsv_locations.tsv\<close> gives \<open>x_data_data\<close>, while stripping the suffix and
  appending \<open>_data\<close> gives \<open>x_locations.tsv_data\<close>.
\<close>

theorem data_name_replaces_all_counterexample:
  "data_name (''x_locations.tsv'' @ ''_locations.tsv'') = ''x_data_data'' \<and>
   data_name (''x_locations.tsv'' @ ''_locations.tsv'') \<noteq> ''x_locations.tsv'' @ ''_data''"
  by (simp add: data_name_def str_replace_def)

text \<open>
  Claim C5. One iteration of the driver hands the pipeline the run call of the derived
  dataset name. The call requests the extra metadata \<open>object_outlines\<close> exactly when the
  name is \<open>training_data\<close> and passes no extra metadata otherwise; the batch size 3, the
  start batch 0 and the batch numbers \<open>[0]\<close> are the same in both branches.
\<close>

theorem run_call_extra_metadata:
  "driver_iteration stream file_name fs =
     (case cleanup (data_name file_name) fs of
        Inl e \<Rightarrow> Inl e
      | Inr fs' \<Rightarrow>
          stream \<lparr>sp_tmp_dir = tmp_dir, sp_final_data_dir = final_data_dir (data_name file_name),
                   sp_log = log_file_path (data_name file_name),
                   sp_data_locations = file_name\<rparr>
            (run_call (data_name file_name)) fs')
   \<and> extra_metadata (run_call (data_name file_name)) =
     (if data_name file_name = ''training_data'' then Some [''object_outlines''] else None)
   \<and> batch_size (run_call (data_name file_name)) = 3
   \<and> start_batch (run_call (data_name file_name)) = 0
   \<and> batch_nums (run_call (data_name file_name)) = [0]"
  by (simp add: run_call_def driver_iteration_def Let_def)

theorem run_call_extra_metadata_witness:
  "extra_metadata (run_call (data_name ''training_locations.tsv'')) = Some [''object_outlines'']
   \<and> extra_metadata (run_call (data_name ''negative_control_locations.tsv'')) = None
   \<and> batch_size (run_call (data_name ''negative_control_locations.tsv'')) = 3"
  using run_call_extra_metadata [of "\<lambda>p c fs. Inr fs" "''training_locations.tsv''" "posix Map.empty"]
    run_call_extra_metadata [of "\<lambda>p c fs. Inr fs" "''negative_control_locations.tsv''" "posix Map.empty"]
  by (simp add: data_name_def str_replace_def)




section \<open>Properties of the class-coloured plots\<close>

lemma set_unique [simp]: "set (unique xs) = set xs"
  by (induction xs rule: unique.induct) auto

lemma distinct_unique [simp]: "distinct (unique xs)"
  by (induction xs rule: unique.induct) auto

lemma unique_Nil_iff [simp]: "unique xs = [] \<longleftrightarrow> xs = []"
  by (cases xs) auto

lemma df_getitem_loc:
  "map_of (df_columns df) cn = Some vals \<Longrightarrow>
   df_getitem (df_loc df keep) cn =
     Inr \<lparr>s_index = select keep (df_index df), s_values = select keep vals\<rparr>"
  by (simp add: df_getitem_def df_loc_def map_of_map)

lemma df_getitems_loc:
  "\<forall>cn \<in> set coords. map_of (df_columns df) cn \<noteq> None \<Longrightarrow>
   \<exists>ss. df_getitems (df_loc df keep) coords = Inr ss \<and> length ss = length coords
     \<and> (\<forall>s \<in> set ss. s_index s = select keep (df_index df))"
proof (induction coords)
  case Nil
  then show ?case by simp
next
  case (Cons cn coords)
  then obtain vals where v: "map_of (df_columns df) cn = Some vals" by auto
  from Cons obtain ss where "df_getitems (df_loc df keep) coords = Inr ss"
    "length ss = length coords" "\<forall>s \<in> set ss. s_index s = select keep (df_index df)"
    by auto
  then show ?case by (simp add: df_getitem_loc [OF v])
qed

lemma scatter_rows_loc:
  assumes "df_getitems (df_loc df keep) coords = Inr ss"
    and "\<forall>cn \<in> set coords. map_of (df_columns df) cn \<noteq> None" and "coords \<noteq> []"
  shows "scatter_rows \<lparr>sc_coords = ss, sc_c = c, sc_alpha = a, sc_s = p\<rparr>
     = select keep (df_index df)"
proof -
  from df_getitems_loc [OF assms(2), of keep] assms(1)
  have l: "length ss = length coords" and i: "\<forall>s \<in> set ss. s_index s = select keep (df_index df)"
    by auto
  from l assms(3) obtain s ss' where "ss = s # ss'" by (cases ss) auto
  with i show ?thesis by (simp add: scatter_rows_def)
qed

lemma class_loop_returns:
  assumes "map_of (df_columns emb) name = Some labs"
    and "\<forall>cn \<in> set coords. map_of (df_columns emb) cn \<noteq> None"
  shows "\<exists>st'. class_loop coords emb name cc alpha ps classes st = Inr st'"
proof (induction classes arbitrary: st)
  case Nil
  then show ?case by simp
next
  case (Cons c classes)
  from df_getitems_loc [OF assms(2), of "map (\<lambda>v. pd_eq v c) labs"]
  obtain ss where "df_getitems (df_loc emb (map (\<lambda>v. pd_eq v c) labs)) coords = Inr ss" by auto
  then show ?case using assms(1) Cons.IH
    by (simp add: df_getitem_def split: option.splits)
qed

lemma class_loop_legend:
  "class_loop coords emb name cc alpha ps classes st = Inr st' \<Longrightarrow>
   legend_elements st' = legend_elements st @
     map (\<lambda>c. \<lparr>label = c, markerfacecolor = the (map_of cc c)\<rparr>)
       (filter (\<lambda>c. map_of cc c \<noteq> None) classes)"
proof (induction classes arbitrary: st)
  case Nil
  then show ?case by simp
next
  case (Cons c classes)
  then show ?case
    by (cases "map_of cc c") (auto split: sum.splits)
qed

lemma class_loop_other:
  "class_loop coords emb name cc alpha ps classes st = Inr st' \<Longrightarrow>
   other_classes_exist st' = (other_classes_exist st \<or> (\<exists>c \<in> set classes. map_of cc c = None))"
proof (induction classes arbitrary: st)
  case Nil
  then show ?case by simp
next
  case (Cons c classes)
  then show ?case
    by (cases "map_of cc c") (auto split: sum.splits)
qed

lemma class_loop_step:
  "class_loop coords emb name cc alpha ps (c # classes) st = Inr st' \<Longrightarrow>
   \<exists>st1. class_loop coords emb name cc alpha ps classes st1 = Inr st'
     \<and> color st1 = Some (case map_of cc c of Some col \<Rightarrow> col | None \<Rightarrow> ''#808080'')"
  by (cases "map_of cc c") (auto split: sum.splits)

lemma class_loop_color:
  "class_loop coords emb name cc alpha ps classes st = Inr st' \<Longrightarrow> classes \<noteq> [] \<Longrightarrow>
   color st' = Some (case map_of cc (last classes) of Some c \<Rightarrow> c | None \<Rightarrow> ''#808080'')"
proof (induction classes arbitrary: st)
  case Nil
  then show ?case by simp
next
  case (Cons c classes)
  from class_loop_step [OF Cons.prems(1)] obtain st1 where
    r: "class_loop coords emb name cc alpha ps classes st1 = Inr st'" and
    c: "color st1 = Some (case map_of cc c of Some col \<Rightarrow> col | None \<Rightarrow> ''#808080'')"
    by blast
  show ?case
  proof (cases "classes = []")
    case True
    with r have "st' = st1" by simp
    with c True show ?thesis by simp
  next
    case False
    with Cons.IH [OF r] show ?thesis by simp
  qed
qed

lemma class_loop_colors:
  "class_loop coords emb name cc alpha ps classes st = Inr st' \<Longrightarrow>
   map sc_c (scatters st') = map sc_c (scatters st) @
     map (\<lambda>c. case map_of cc c of Some col \<Rightarrow> col | None \<Rightarrow> ''#808080'') classes"
proof (induction classes arbitrary: st)
  case Nil
  then show ?case by simp
next
  case (Cons c classes)
  then show ?case
    by (cases "map_of cc c") (auto split: sum.splits)
qed

lemma class_loop_rows:
  assumes "map_of (df_columns emb) name = Some labs"
    and "\<forall>cn \<in> set coords. map_of (df_columns emb) cn \<noteq> None" and "coords \<noteq> []"
  shows "class_loop coords emb name cc alpha ps classes st = Inr st' \<Longrightarrow>
   map scatter_rows (scatters st') = map scatter_rows (scatters st) @
     map (\<lambda>c. select (map (\<lambda>v. pd_eq v c) labs) (df_index emb)) classes"
proof (induction classes arbitrary: st)
  case Nil
  then show ?case by simp
next
  case (Cons c classes)
  from Cons.prems assms(1) obtain ss where
    ss: "df_getitems (df_loc emb (map (\<lambda>v. pd_eq v c) labs)) coords = Inr ss"
    by (auto simp: df_getitem_def split: sum.splits)
  note r = scatter_rows_loc [OF ss assms(2,3)]
  show ?case
  proof (cases "map_of cc c")
    case None
    with Cons.prems assms(1) ss have
      "class_loop coords emb name cc alpha ps classes
         (st\<lparr>other_classes_exist := True, color := Some ''#808080'',
             scatters := scatters st @
               [\<lparr>sc_coords = ss, sc_c = ''#808080'', sc_alpha = alpha, sc_s = ps\<rparr>]\<rparr>) = Inr st'"
      by (simp add: df_getitem_def)
    from Cons.IH [OF this] show ?thesis by (simp add: r)
  next
    case (Some col)
    with Cons.prems assms(1) ss have
      "class_loop coords emb name cc alpha ps classes
         (st\<lparr>legend_elements := legend_elements st @ [\<lparr>label = c, markerfacecolor = col\<rparr>],
             color := Some col,
             scatters := scatters st @
               [\<lparr>sc_coords = ss, sc_c = col, sc_alpha = alpha, sc_s = ps\<rparr>]\<rparr>) = Inr st'"
      by (simp add: df_getitem_def)
    from Cons.IH [OF this] show ?thesis by (simp add: r)
  qed
qed

lemma select_filter_zip:
  "select (map P labs) idx = map snd (filter (\<lambda>p. P (fst p)) (zip labs idx))"
proof (induction labs arbitrary: idx)
  case Nil
  then show ?case by (simp add: select_def)
next
  case (Cons l labs)
  then show ?case by (cases idx) (auto simp: select_def)
qed

lemma filter_classes_partition:
  "distinct cs \<Longrightarrow> fst ` set ps \<subseteq> set cs \<Longrightarrow>
   mset (concat (map (\<lambda>c. filter (\<lambda>p. fst p = c) ps) cs)) = mset ps"
proof (induction cs arbitrary: ps)
  case Nil
  then show ?case by simp
next
  case (Cons c cs)
  let ?rest = "filter (\<lambda>p. fst p \<noteq> c) ps"
  have eq: "map (\<lambda>c'. filter (\<lambda>p. fst p = c') ps) cs = map (\<lambda>c'. filter (\<lambda>p. fst p = c') ?rest) cs"
  proof (rule map_cong [OF refl])
    fix c' assume "c' \<in> set cs"
    with Cons.prems(1) have "c' \<noteq> c" by auto
    then show "filter (\<lambda>p. fst p = c') ps = filter (\<lambda>p. fst p = c') ?rest"
      by (auto intro: filter_cong)
  qed
  have "fst ` set ?rest \<subseteq> set cs" using Cons.prems(2) by auto
  with Cons.prems(1) have r: "mset (concat (map (\<lambda>c'. filter (\<lambda>p. fst p = c') ?rest) cs)) = mset ?rest"
    by (intro Cons.IH) auto
  have e: "mset (concat (map (\<lambda>c'. filter (\<lambda>p. fst p = c') ps) cs)) =
      mset (concat (map (\<lambda>c'. filter (\<lambda>p. fst p = c') ?rest) cs))"
    by (simp only: eq)
  from e r have r': "mset (concat (map (\<lambda>c'. filter (\<lambda>p. fst p = c') ps) cs)) = mset ?rest"
    by (rule trans)
  have "mset (concat (map (\<lambda>c'. filter (\<lambda>p. fst p = c') ps) (c # cs)))
      = mset (filter (\<lambda>p. fst p = c) ps) + mset (concat (map (\<lambda>c'. filter (\<lambda>p. fst p = c') ps) cs))"
    by simp
  also have "\<dots> = mset (filter (\<lambda>p. fst p = c) ps) + mset ?rest"
    by (simp only: r')
  also have "\<dots> = mset ps"
    by (simp only: mset_filter multiset_partition [symmetric])
  finally show ?case .
qed

text \<open>
  The rows the loop selects, over all classes: every row whose label is not a missing
  value, once.
\<close>

lemma classes_partition_rows:
  assumes "length labs = length idx"
  shows "mset (concat (map (\<lambda>c. select (map (\<lambda>v. pd_eq v c) labs) idx) (unique labs)))
     = mset (select (map (\<lambda>v. \<not> is_missing v) labs) idx)"
proof -
  let ?ps = "filter (\<lambda>p. \<not> is_missing (fst p)) (zip labs idx)"
  have sel: "\<And>c. select (map (\<lambda>v. pd_eq v c) labs) idx = map snd (filter (\<lambda>p. fst p = c) ?ps)"
  proof -
    fix c
    have "filter (\<lambda>p. pd_eq (fst p) c) (zip labs idx) = filter (\<lambda>p. fst p = c) ?ps"
      by (auto simp: pd_eq_def intro: filter_cong)
    then show "select (map (\<lambda>v. pd_eq v c) labs) idx = map snd (filter (\<lambda>p. fst p = c) ?ps)"
      by (simp only: select_filter_zip)
  qed
  have "concat (map (\<lambda>c. select (map (\<lambda>v. pd_eq v c) labs) idx) (unique labs))
      = map snd (concat (map (\<lambda>c. filter (\<lambda>p. fst p = c) ?ps) (unique labs)))"
    by (simp add: sel map_concat comp_def)
  then have "mset (concat (map (\<lambda>c. select (map (\<lambda>v. pd_eq v c) labs) idx) (unique labs)))
      = image_mset snd (mset (concat (map (\<lambda>c. filter (\<lambda>p. fst p = c) ?ps) (unique labs))))"
    by simp
  also have "\<dots> = image_mset snd (mset ?ps)"
    using assms by (subst filter_classes_partition) (auto dest: set_zip_leftD)
  also have "\<dots> = mset (map snd ?ps)" by simp
  also have "map snd ?ps = select (map (\<lambda>v. \<not> is_missing v) labs) idx"
    by (simp only: select_filter_zip)
  finally show ?thesis .
qed

lemma select_all_rows:
  assumes "length labs = length idx" and "\<forall>v \<in> set labs. \<not> is_missing v"
  shows "select (map (\<lambda>v. \<not> is_missing v) labs) idx = idx"
proof -
  have "filter (\<lambda>p. \<not> is_missing (fst p)) (zip labs idx) = zip labs idx"
    using assms(2) by (auto simp: filter_id_conv dest: set_zip_leftD)
  then show ?thesis using assms(1) by (simp add: select_filter_zip)
qed

lemma plot_classes_result:
  assumes name: "map_of (df_columns emb) name = Some labs"
    and coords: "\<forall>cn \<in> set coords. map_of (df_columns emb) cn \<noteq> None" "coords \<noteq> []"
  shows "\<exists>calls handles. plot_classes coords emb name cc alpha ps = Inr (calls, handles)
     \<and> handles =
         map (\<lambda>c. \<lparr>label = c, markerfacecolor = the (map_of cc c)\<rparr>)
           (filter (\<lambda>c. map_of cc c \<noteq> None) (unique labs))
         @ (if \<exists>l \<in> set labs. map_of cc l = None
            then [\<lparr>label = Str ''Other'',
                   markerfacecolor = (case map_of cc (last (unique labs)) of
                                        Some c \<Rightarrow> c | None \<Rightarrow> ''#808080'')\<rparr>]
            else [])
     \<and> map scatter_rows calls =
         map (\<lambda>c. select (map (\<lambda>v. pd_eq v c) labs) (df_index emb)) (unique labs)
     \<and> map sc_c calls =
         map (\<lambda>c. case map_of cc c of Some col \<Rightarrow> col | None \<Rightarrow> ''#808080'') (unique labs)"
proof -
  from class_loop_returns [OF name coords(1)] obtain st where
    st: "class_loop coords emb name cc alpha ps (unique labs) initial_state = Inr st"
    by blast
  have leg: "legend_elements st =
      map (\<lambda>c. \<lparr>label = c, markerfacecolor = the (map_of cc c)\<rparr>)
        (filter (\<lambda>c. map_of cc c \<noteq> None) (unique labs))"
    using class_loop_legend [OF st] by (simp add: initial_state_def)
  have oth: "other_classes_exist st = (\<exists>l \<in> set labs. map_of cc l = None)"
    using class_loop_other [OF st] by (simp add: initial_state_def)
  have rows: "map scatter_rows (scatters st) =
      map (\<lambda>c. select (map (\<lambda>v. pd_eq v c) labs) (df_index emb)) (unique labs)"
    using class_loop_rows [OF name coords st] by (simp add: initial_state_def)
  have cols: "map sc_c (scatters st) =
      map (\<lambda>c. case map_of cc c of Some col \<Rightarrow> col | None \<Rightarrow> ''#808080'') (unique labs)"
    using class_loop_colors [OF st] by (simp add: initial_state_def)
  have getn: "df_getitem emb name = Inr \<lparr>s_index = df_index emb, s_values = labs\<rparr>"
    using name by (simp add: df_getitem_def)
  show ?thesis
  proof (cases "\<exists>l \<in> set labs. map_of cc l = None")
    case True
    then have "unique labs \<noteq> []" by auto
    from class_loop_color [OF st this] have
      col: "color st = Some (case map_of cc (last (unique labs)) of
                               Some c \<Rightarrow> c | None \<Rightarrow> ''#808080'')" .
    have "add_other st = Inr (legend_elements st @
        [\<lparr>label = Str ''Other'',
          markerfacecolor = (case map_of cc (last (unique labs)) of
                               Some c \<Rightarrow> c | None \<Rightarrow> ''#808080'')\<rparr>])"
      using True oth col by (simp add: add_other_def)
    then have "plot_classes coords emb name cc alpha ps = Inr (scatters st, legend_elements st @
        [\<lparr>label = Str ''Other'',
          markerfacecolor = (case map_of cc (last (unique labs)) of
                               Some c \<Rightarrow> c | None \<Rightarrow> ''#808080'')\<rparr>])"
      using getn st by (simp add: plot_classes_def)
    with True leg rows cols show ?thesis by simp
  next
    case False
    with oth have "\<not> other_classes_exist st" by blast
    then have "add_other st = Inr (legend_elements st)"
      by (simp add: add_other_def)
    then have "plot_classes coords emb name cc alpha ps = Inr (scatters st, legend_elements st)"
      using getn st by (simp add: plot_classes_def)
    with False leg rows cols show ?thesis by simp
  qed
qed

lemma embedding_table_2D:
  assumes "fit_transform 0 2 X = Inr E" and "length E = length X"
    and "\<forall>row \<in> set E. length row = 2" and "length (md_values m) = length X"
  shows "embedding_table fit_transform 2 [''UMAP1'', ''UMAP2''] X m =
     Inr \<lparr>df_index = [0..<length X],
          df_columns = AList.update (md_name m) (md_values m)
            [(''UMAP1'', map (\<lambda>row. Num (row ! 0)) E),
             (''UMAP2'', map (\<lambda>row. Num (row ! 1)) E)]\<rparr>"
proof -
  have "list_all (\<lambda>row. length row = length [''UMAP1'', ''UMAP2'']) E"
    using assms(3) by (simp add: list_all_iff)
  then have "DataFrame E [''UMAP1'', ''UMAP2''] =
     Inr \<lparr>df_index = [0..<length X],
          df_columns = [(''UMAP1'', map (\<lambda>row. Num (row ! 0)) E),
                        (''UMAP2'', map (\<lambda>row. Num (row ! 1)) E)]\<rparr>"
    unfolding DataFrame_def using assms(2) by (simp add: upt_rec)
  then show ?thesis
    using assms(1,2,4) by (simp add: embedding_table_def df_setitem_def)
qed

lemma embedding_table_1D:
  assumes "fit_transform 0 1 X = Inr E" and "length E = length X"
    and "\<forall>row \<in> set E. length row = 1" and "length (md_values m) = length X"
  shows "embedding_table fit_transform 1 [''UMAP1''] X m =
     Inr \<lparr>df_index = [0..<length X],
          df_columns = AList.update (md_name m) (md_values m)
            [(''UMAP1'', map (\<lambda>row. Num (row ! 0)) E)]\<rparr>"
proof -
  have "list_all (\<lambda>row. length row = length [''UMAP1'']) E"
    using assms(3) by (simp add: list_all_iff)
  then have "DataFrame E [''UMAP1''] =
     Inr \<lparr>df_index = [0..<length X],
          df_columns = [(''UMAP1'', map (\<lambda>row. Num (row ! 0)) E)]\<rparr>"
    unfolding DataFrame_def using assms(2) by (simp add: upt_rec)
  then show ?thesis
    using assms(1,2,4) by (simp add: embedding_table_def df_setitem_def)
qed

lemma embedding_table_3D:
  assumes "fit_transform 0 3 X = Inr E" and "length E = length X"
    and "\<forall>row \<in> set E. length row = 3" and "length (md_values m) = length X"
  shows "embedding_table fit_transform 3 [''UMAP1'', ''UMAP2'', ''UMAP3''] X m =
     Inr \<lparr>df_index = [0..<length X],
          df_columns = AList.update (md_name m) (md_values m)
            [(''UMAP1'', map (\<lambda>row. Num (row ! 0)) E),
             (''UMAP2'', map (\<lambda>row. Num (row ! 1)) E),
             (''UMAP3'', map (\<lambda>row. Num (row ! 2)) E)]\<rparr>"
proof -
  have "list_all (\<lambda>row. length row = length [''UMAP1'', ''UMAP2'', ''UMAP3'']) E"
    using assms(3) by (simp add: list_all_iff)
  then have "DataFrame E [''UMAP1'', ''UMAP2'', ''UMAP3''] =
     Inr \<lparr>df_index = [0..<length X],
          df_columns = [(''UMAP1'', map (\<lambda>row. Num (row ! 0)) E),
                        (''UMAP2'', map (\<lambda>row. Num (row ! 1)) E),
                        (''UMAP3'', map (\<lambda>row. Num (row ! 2)) E)]\<rparr>"
    unfolding DataFrame_def using assms(2) by (simp add: upt_rec numeral_2_eq_2)
  then show ?thesis
    using assms(1,2,4) by (simp add: embedding_table_def df_setitem_def)
qed

lemma show_2D_umap_unfold:
  assumes "fit_transform 0 2 X = Inr E" and "length E = length X"
    and "\<forall>row \<in> set E. length row = 2" and "length (md_values m) = length X"
  shows "\<exists>calls handles emb.
      show_2D_umap fit_transform X m cc sp ps al =
        Inr (\<lparr>fig_scatter = calls, fig_legend = handles,
              fig_xlabel = ''UMAP 1'', fig_ylabel = ''UMAP 2'',
              fig_zlabel = None, fig_title = ''2 Dimensional UMAP'',
              fig_saved = sp\<rparr>, PyDataFrame emb)
    \<and> emb = \<lparr>df_index = [0..<length X],
          df_columns = AList.update (md_name m) (md_values m)
            [(''UMAP1'', map (\<lambda>row. Num (row ! 0)) E),
             (''UMAP2'', map (\<lambda>row. Num (row ! 1)) E)]\<rparr>
    \<and> plot_classes [''UMAP1'', ''UMAP2''] emb (md_name m) cc al ps = Inr (calls, handles)
    \<and> map_of (df_columns emb) (md_name m) = Some (md_values m)
    \<and> (\<forall>cn \<in> set [''UMAP1'', ''UMAP2'']. map_of (df_columns emb) cn \<noteq> None)"
proof -
  let ?emb = "\<lparr>df_index = [0..<length X],
          df_columns = AList.update (md_name m) (md_values m)
            [(''UMAP1'', map (\<lambda>row. Num (row ! 0)) E),
             (''UMAP2'', map (\<lambda>row. Num (row ! 1)) E)]\<rparr>"
  have n: "map_of (df_columns ?emb) (md_name m) = Some (md_values m)"
    by (simp add: update_conv')
  have c: "\<forall>cn \<in> set [''UMAP1'', ''UMAP2'']. map_of (df_columns ?emb) cn \<noteq> None"
    by (simp add: update_conv')
  from plot_classes_result [OF n c, of cc al ps] obtain calls handles where
    p: "plot_classes [''UMAP1'', ''UMAP2''] ?emb (md_name m) cc al ps = Inr (calls, handles)"
    by auto
  have "show_2D_umap fit_transform X m cc sp ps al =
        Inr (\<lparr>fig_scatter = calls, fig_legend = handles,
              fig_xlabel = ''UMAP 1'', fig_ylabel = ''UMAP 2'',
              fig_zlabel = None, fig_title = ''2 Dimensional UMAP'',
              fig_saved = sp\<rparr>, PyDataFrame ?emb)"
    unfolding show_2D_umap_def embedding_table_2D [of fit_transform X E m, OF assms]
    using p by simp
  with p n c show ?thesis by blast
qed

lemma show_3D_umap_unfold:
  assumes "fit_transform 0 3 X = Inr E" and "length E = length X"
    and "\<forall>row \<in> set E. length row = 3" and "length (md_values m) = length X"
  shows "\<exists>calls handles emb.
      show_3D_umap fit_transform X m cc sp ps al =
        Inr (\<lparr>fig_scatter = calls, fig_legend = handles,
              fig_xlabel = ''UMAP 1'', fig_ylabel = ''UMAP 2'',
              fig_zlabel = Some ''UMAP 3'', fig_title = ''3 Dimensional UMAP'',
              fig_saved = sp\<rparr>, PyNone)
    \<and> df_index emb = [0..<length X]
    \<and> plot_classes [''UMAP1'', ''UMAP2'', ''UMAP3''] emb (md_name m) cc al ps
         = Inr (calls, handles)
    \<and> map_of (df_columns emb) (md_name m) = Some (md_values m)
    \<and> (\<forall>cn \<in> set [''UMAP1'', ''UMAP2'', ''UMAP3'']. map_of (df_columns emb) cn \<noteq> None)"
proof -
  let ?emb = "\<lparr>df_index = [0..<length X],
          df_columns = AList.update (md_name m) (md_values m)
            [(''UMAP1'', map (\<lambda>row. Num (row ! 0)) E),
             (''UMAP2'', map (\<lambda>row. Num (row ! 1)) E),
             (''UMAP3'', map (\<lambda>row. Num (row ! 2)) E)]\<rparr>"
  have n: "map_of (df_columns ?emb) (md_name m) = Some (md_values m)"
    by (simp add: update_conv')
  have c: "\<forall>cn \<in> set [''UMAP1'', ''UMAP2'', ''UMAP3'']. map_of (df_columns ?emb) cn \<noteq> None"
    by (simp add: update_conv')
  from plot_classes_result [OF n c, of cc al ps] obtain calls handles where
    p: "plot_classes [''UMAP1'', ''UMAP2'', ''UMAP3''] ?emb (md_name m) cc al ps
          = Inr (calls, handles)"
    by auto
  have "show_3D_umap fit_transform X m cc sp ps al =
        Inr (\<lparr>fig_scatter = calls, fig_legend = handles,
              fig_xlabel = ''UMAP 1'', fig_ylabel = ''UMAP 2'',
              fig_zlabel = Some ''UMAP 3'', fig_title = ''3 Dimensional UMAP'',
              fig_saved = sp\<rparr>, PyNone)"
    unfolding show_3D_umap_def embedding_table_3D [of fit_transform X E m, OF assms]
    using p by simp
  moreover have "df_index ?emb = [0..<length X]" by simp
  ultimately show ?thesis using p n c by blast
qed

lemma show_1D_umap_unfold:
  assumes "fit_transform 0 1 X = Inr E" and "length E = length X"
    and "\<forall>row \<in> set E. length row = 1" and "length (md_values m) = length X"
    and "length (rand (length X)) = length X"
  shows "\<exists>calls handles emb.
      show_1D_umap fit_transform rand X m cc sp ps al =
        Inr (\<lparr>fig_scatter = calls, fig_legend = handles,
              fig_xlabel = ''UMAP 1'', fig_ylabel = ''Random Distribution'',
              fig_zlabel = None, fig_title = ''1 Dimensional UMAP'',
              fig_saved = sp\<rparr>, PyNone)
    \<and> df_index emb = [0..<length X]
    \<and> plot_classes [''UMAP1'', ''y_distribution''] emb (md_name m) cc al ps
         = Inr (calls, handles)
    \<and> map_of (df_columns emb) (md_name m) =
         Some (if md_name m = ''y_distribution'' then map Num (rand (length X))
               else md_values m)
    \<and> (\<forall>cn \<in> set [''UMAP1'', ''y_distribution'']. map_of (df_columns emb) cn \<noteq> None)"
proof -
  define emb0 where "emb0 = \<lparr>df_index = [0..<length X],
          df_columns = AList.update (md_name m) (md_values m)
            [(''UMAP1'', map (\<lambda>row. Num (row ! 0)) E)]\<rparr>"
  define emb where "emb = \<lparr>df_index = [0..<length X],
          df_columns = AList.update ''y_distribution'' (map Num (rand (length X)))
            (AList.update (md_name m) (md_values m)
              [(''UMAP1'', map (\<lambda>row. Num (row ! 0)) E)])\<rparr>"
  have t: "embedding_table fit_transform 1 [''UMAP1''] X m = Inr emb0"
    unfolding emb0_def
    by (rule embedding_table_1D [of fit_transform X E m, OF assms(1) assms(2) assms(3) assms(4)])
  have s: "df_setitem emb0 ''y_distribution'' (map Num (rand (length X))) = Inr emb"
    using assms(5) by (simp add: df_setitem_def emb0_def emb_def)
  have n: "map_of (df_columns emb) (md_name m) =
         Some (if md_name m = ''y_distribution'' then map Num (rand (length X))
               else md_values m)"
    by (simp add: emb_def update_conv')
  have c: "\<forall>cn \<in> set [''UMAP1'', ''y_distribution'']. map_of (df_columns emb) cn \<noteq> None"
    by (simp add: emb_def update_conv')
  from plot_classes_result [OF n c, of cc al ps] obtain calls handles where
    p: "plot_classes [''UMAP1'', ''y_distribution''] emb (md_name m) cc al ps
          = Inr (calls, handles)"
    by auto
  have "show_1D_umap fit_transform rand X m cc sp ps al =
        Inr (\<lparr>fig_scatter = calls, fig_legend = handles,
              fig_xlabel = ''UMAP 1'', fig_ylabel = ''Random Distribution'',
              fig_zlabel = None, fig_title = ''1 Dimensional UMAP'',
              fig_saved = sp\<rparr>, PyNone)"
    unfolding show_1D_umap_def t by (simp add: s p)
  moreover have "df_index emb = [0..<length X]" by (simp add: emb_def)
  ultimately show ?thesis using p n c by blast
qed

section \<open>The claims about the class-coloured plots\<close>

text \<open>
  Claim C3. The docstrings say that classes without an entry in \<open>class_colors\<close> are
  drawn gray, and the points of such classes are. The \<open>Other\<close> legend handle, however,
  is built after the loop from the variable \<open>color\<close>, which holds the colour of the last
  class the loop processed. For the labels \<open>x, a\<close> with only \<open>a\<close> mapped (to \<open>#ff0000\<close>) the
  last class is \<open>a\<close>, and the swatch of \<open>Other\<close> is \<open>#ff0000\<close>, not \<open>#808080\<close>.
\<close>

theorem show_2D_umap_other_swatch_leak:
  "show_2D_umap (\<lambda>random_state n X. Inr (map (\<lambda>row. replicate n 0) X)) [[1], [2]]
     \<lparr>md_name = ''cls'', md_values = [Str ''x'', Str ''a'']\<rparr>
     [(Str ''a'', ''#ff0000'')] None 5 1
   = Inr (\<lparr>fig_scatter =
            [\<lparr>sc_coords = [\<lparr>s_index = [0], s_values = [Num 0]\<rparr>,
                            \<lparr>s_index = [0], s_values = [Num 0]\<rparr>],
              sc_c = ''#808080'', sc_alpha = 1, sc_s = 5\<rparr>,
             \<lparr>sc_coords = [\<lparr>s_index = [1], s_values = [Num 0]\<rparr>,
                            \<lparr>s_index = [1], s_values = [Num 0]\<rparr>],
              sc_c = ''#ff0000'', sc_alpha = 1, sc_s = 5\<rparr>],
           fig_legend =
            [\<lparr>label = Str ''a'', markerfacecolor = ''#ff0000''\<rparr>,
             \<lparr>label = Str ''Other'', markerfacecolor = ''#ff0000''\<rparr>],
           fig_xlabel = ''UMAP 1'', fig_ylabel = ''UMAP 2'', fig_zlabel = None,
           fig_title = ''2 Dimensional UMAP'', fig_saved = None\<rparr>,
          PyDataFrame
            \<lparr>df_index = [0, 1],
             df_columns = [(''UMAP1'', [Num 0, Num 0]), (''UMAP2'', [Num 0, Num 0]),
                           (''cls'', [Str ''x'', Str ''a''])]\<rparr>)"
  by (simp add: show_2D_umap_def embedding_table_def DataFrame_def df_setitem_def
      plot_classes_def df_getitem_def df_loc_def select_def add_other_def initial_state_def
      pd_eq_def is_missing_def
      upt_rec numeral_2_eq_2)

text \<open>
  The leak does not depend on the number of rows: six rows, three of the unmapped class
  \<open>x\<close> followed by three of the mapped class \<open>a\<close>, give the same legend.
\<close>

lemma show_2D_umap_other_swatch_leak_at_six_rows:
  "(case show_2D_umap (\<lambda>random_state n X. Inr (map (\<lambda>row. replicate n 0) X))
           [[1], [2], [3], [4], [5], [6]]
           \<lparr>md_name = ''cls'',
            md_values = [Str ''x'', Str ''x'', Str ''x'', Str ''a'', Str ''a'', Str ''a'']\<rparr>
           [(Str ''a'', ''#ff0000'')] None 5 1 of
      Inl e \<Rightarrow> None
    | Inr (fig, v) \<Rightarrow>
        Some (map scatter_rows (fig_scatter fig), map sc_c (fig_scatter fig), fig_legend fig))
   = Some ([[0, 1, 2], [3, 4, 5]], [''#808080'', ''#ff0000''],
           [\<lparr>label = Str ''a'', markerfacecolor = ''#ff0000''\<rparr>,
            \<lparr>label = Str ''Other'', markerfacecolor = ''#ff0000''\<rparr>])"
  by (simp add: show_2D_umap_def embedding_table_def DataFrame_def df_setitem_def
      plot_classes_def df_getitem_def df_loc_def select_def add_other_def initial_state_def
      scatter_rows_def pd_eq_def is_missing_def upt_rec numeral_2_eq_2 numeral_3_eq_3)

lemma set_update_subset:
  "p \<in> set (AList.update k v al) \<Longrightarrow> p = (k, v) \<or> p \<in> set al"
  by (induction al) (auto split: if_splits)

lemma embedding_table_shape:
  assumes "embedding_table fit_transform k names X m = Inr emb"
    and "\<forall>E. fit_transform 0 k X = Inr E \<longrightarrow> length E = length X"
  shows "df_index emb = [0..<length X]"
    and "\<forall>p \<in> set (df_columns emb). length (snd p) = length X"
    and "\<forall>n \<in> set names. map_of (df_columns emb) n \<noteq> None"
proof -
  from assms(1) obtain E where E: "fit_transform 0 k X = Inr E"
    by (auto simp: embedding_table_def split: sum.splits)
  with assms(2) have len: "length E = length X" by simp
  let ?cols = "map (\<lambda>j. (names ! j, map (\<lambda>row. Num (row ! j)) E)) [0..<length names]"
  from assms(1) E have df: "DataFrame E names = Inr \<lparr>df_index = [0..<length E], df_columns = ?cols\<rparr>"
    and set: "df_setitem \<lparr>df_index = [0..<length E], df_columns = ?cols\<rparr> (md_name m) (md_values m) = Inr emb"
    by (auto simp: embedding_table_def DataFrame_def split: sum.splits if_splits)
  from set have mlen: "length (md_values m) = length E"
    and emb: "emb = \<lparr>df_index = [0..<length E],
                     df_columns = AList.update (md_name m) (md_values m) ?cols\<rparr>"
    by (auto simp: df_setitem_def split: if_splits)
  show "df_index emb = [0..<length X]" by (simp add: emb len)
  show "\<forall>p \<in> set (df_columns emb). length (snd p) = length X"
  proof
    fix p assume "p \<in> set (df_columns emb)"
    then have "p \<in> set (AList.update (md_name m) (md_values m) ?cols)" by (simp add: emb)
    then have "p = (md_name m, md_values m) \<or> p \<in> set ?cols" by (rule set_update_subset)
    then show "length (snd p) = length X" using mlen len by auto
  qed
  show "\<forall>n \<in> set names. map_of (df_columns emb) n \<noteq> None"
  proof
    fix n assume "n \<in> set names"
    then have "n \<in> fst ` set ?cols" by (force simp: in_set_conv_nth)
    then have "n \<in> fst ` set (df_columns emb)" by (simp add: emb dom_update)
    then show "map_of (df_columns emb) n \<noteq> None"
      by (metis domIff dom_map_of_conv_image_fst)
  qed
qed

text \<open>
  Claim C7. The UMAP library returns one row per row of the feature matrix and one column
  per component; that is the hypothesis on the parameter \<open>fit_transform\<close>. Then the two
  coordinate vectors of \<open>get_2D_umap_embeddings\<close> are as long as the feature matrix has
  rows, and the embedding table of \<open>show_1D_umap\<close>, \<open>show_2D_umap\<close> and \<open>show_3D_umap\<close> has
  the rows 0 to N - 1, every column N values long, and one coordinate column per
  component name. The functions return whenever UMAP does and the metadata series has
  one value per row.
\<close>

theorem embedding_row_count:
  assumes "\<forall>random_state k E. fit_transform random_state k X = Inr E \<longrightarrow>
             length E = length X \<and> (\<forall>row \<in> set E. length row = k)"
  shows "(\<forall>E. fit_transform random_state 2 X = Inr E \<longrightarrow>
            (\<exists>x_data y_data. get_2D_umap_embeddings fit_transform X random_state
                 = Inr (x_data, y_data)
               \<and> length x_data = length X \<and> length y_data = length X))
     \<and> (\<forall>k names emb. embedding_table fit_transform k names X m = Inr emb \<longrightarrow>
            df_index emb = [0..<length X]
          \<and> (\<forall>p \<in> set (df_columns emb). length (snd p) = length X)
          \<and> (\<forall>n \<in> set names. map_of (df_columns emb) n \<noteq> None))
     \<and> (length (md_values m) = length X \<longrightarrow>
          (\<forall>k names E. fit_transform 0 k X = Inr E \<and> length names = k \<longrightarrow>
             (\<exists>emb. embedding_table fit_transform k names X m = Inr emb)))"
proof (intro conjI allI impI)
  fix E assume E: "fit_transform random_state 2 X = Inr E"
  with assms have len: "length E = length X" and rows: "\<forall>row \<in> set E. length row = 2"
    by blast+
  from rows have "list_all (\<lambda>row. 2 \<le> length row) E" by (simp add: list_all_iff)
  with E len show "\<exists>x_data y_data. get_2D_umap_embeddings fit_transform X random_state
                 = Inr (x_data, y_data)
               \<and> length x_data = length X \<and> length y_data = length X"
    by (simp add: get_2D_umap_embeddings_def)
next
  fix k names emb assume e: "embedding_table fit_transform k names X m = Inr emb"
  from assms have c: "\<forall>E. fit_transform 0 k X = Inr E \<longrightarrow> length E = length X" by blast
  show "df_index emb = [0..<length X]" by (rule embedding_table_shape(1) [OF e c])
  show "\<forall>p \<in> set (df_columns emb). length (snd p) = length X"
    by (rule embedding_table_shape(2) [OF e c])
  show "\<forall>n \<in> set names. map_of (df_columns emb) n \<noteq> None"
    by (rule embedding_table_shape(3) [OF e c])
next
  fix k and names :: "string list" and E
  assume m: "length (md_values m) = length X"
    and "fit_transform 0 k X = Inr E \<and> length names = k"
  then have E: "fit_transform 0 k X = Inr E" and n: "length names = k" by simp_all
  from assms E have len: "length E = length X" and rows: "\<forall>row \<in> set E. length row = k"
    by blast+
  from rows n have "list_all (\<lambda>row. length row = length names) E" by (simp add: list_all_iff)
  with E len m show "\<exists>emb. embedding_table fit_transform k names X m = Inr emb"
    by (simp add: embedding_table_def DataFrame_def df_setitem_def)
qed

theorem embedding_row_count_witness:
  "\<exists>x_data y_data.
     get_2D_umap_embeddings (\<lambda>random_state n X. Inr (map (\<lambda>row. replicate n 0) X))
       [[1, 2, 3], [4, 5, 6]] 0 = Inr (x_data, y_data)
     \<and> length x_data = 2 \<and> length y_data = 2"
proof -
  let ?ft = "\<lambda>(random_state :: int) (n :: nat) (X :: ndarray).
               (Inr (map (\<lambda>row. replicate n 0) X) :: error + ndarray)"
  have h: "\<forall>random_state k E. ?ft random_state k [[1, 2, 3], [4, 5, 6]] = Inr E \<longrightarrow>
             length E = length [[1, 2, 3], [4, 5, 6 :: real]] \<and> (\<forall>row \<in> set E. length row = k)"
    by auto
  have e: "?ft 0 2 [[1, 2, 3], [4, 5, 6]] = Inr [[0, 0], [0, 0]]"
    by (simp add: numeral_2_eq_2)
  from embedding_row_count [of ?ft "[[1, 2, 3], [4, 5, 6]]" 0, OF h,
      THEN conjunct1, THEN spec, THEN mp, OF e]
  show ?thesis by (simp add: numeral_2_eq_2)
qed

text \<open>
  Claim C8. \<open>show_2D_umap_from_embeddings\<close> returns \<open>None\<close> whenever it returns, and it
  returns when the vectors and the series have the same length. \<open>show_2D_umap\<close> returns the
  embedding table: its columns are \<open>UMAP1\<close>, \<open>UMAP2\<close> and the name of the metadata series,
  and the column under that name holds the metadata values in the order of the series.
  When the name is neither \<open>UMAP1\<close> nor \<open>UMAP2\<close> these are three columns in this order.
\<close>

theorem show_2D_umap_returns_table:
  assumes "fit_transform 0 2 X = Inr E" and "length E = length X"
    and "\<forall>row \<in> set E. length row = 2" and "length (md_values m) = length X"
  shows "(\<forall>x_data y_data palette r.
            show_2D_umap_from_embeddings x_data y_data m sp ps al palette = Inr r \<longrightarrow>
            snd r = PyNone)
     \<and> (\<forall>x_data y_data palette.
            length y_data = length x_data \<and> length (md_values m) = length x_data \<longrightarrow>
            (\<exists>fig. show_2D_umap_from_embeddings x_data y_data m sp ps al palette
                     = Inr (fig, PyNone)))
     \<and> (\<exists>fig emb. show_2D_umap fit_transform X m cc sp ps al = Inr (fig, PyDataFrame emb)
          \<and> set (map fst (df_columns emb)) = {''UMAP1'', ''UMAP2'', md_name m}
          \<and> distinct (map fst (df_columns emb))
          \<and> map_of (df_columns emb) (md_name m) = Some (md_values m)
          \<and> df_index emb = [0..<length X]
          \<and> (md_name m \<noteq> ''UMAP1'' \<and> md_name m \<noteq> ''UMAP2'' \<longrightarrow>
               df_columns emb =
                 [(''UMAP1'', map (\<lambda>row. Num (row ! 0)) E),
                  (''UMAP2'', map (\<lambda>row. Num (row ! 1)) E),
                  (md_name m, md_values m)]))"
proof (intro conjI allI impI)
  fix x_data y_data palette r
  assume "show_2D_umap_from_embeddings x_data y_data m sp ps al palette = Inr r"
  then show "snd r = PyNone"
    by (auto simp: show_2D_umap_from_embeddings_def split: if_splits)
next
  fix x_data y_data :: "real list" and palette
  assume "length y_data = length x_data \<and> length (md_values m) = length x_data"
  then show "\<exists>fig. show_2D_umap_from_embeddings x_data y_data m sp ps al palette
                     = Inr (fig, PyNone)"
    by (simp add: show_2D_umap_from_embeddings_def)
next
  from show_2D_umap_unfold [of fit_transform X E m cc sp ps al, OF assms] obtain calls handles emb where
    r: "show_2D_umap fit_transform X m cc sp ps al =
        Inr (\<lparr>fig_scatter = calls, fig_legend = handles,
              fig_xlabel = ''UMAP 1'', fig_ylabel = ''UMAP 2'',
              fig_zlabel = None, fig_title = ''2 Dimensional UMAP'',
              fig_saved = sp\<rparr>, PyDataFrame emb)"
    and emb: "emb = \<lparr>df_index = [0..<length X],
          df_columns = AList.update (md_name m) (md_values m)
            [(''UMAP1'', map (\<lambda>row. Num (row ! 0)) E),
             (''UMAP2'', map (\<lambda>row. Num (row ! 1)) E)]\<rparr>"
    and n: "map_of (df_columns emb) (md_name m) = Some (md_values m)"
    by blast
  have keys: "set (map fst (df_columns emb)) = {''UMAP1'', ''UMAP2'', md_name m}"
    unfolding emb by (auto simp: dom_update simp del: AList.update.simps)
  have dist: "distinct (map fst (df_columns emb))"
    unfolding emb by (simp add: distinct_update del: AList.update.simps)
  have idx: "df_index emb = [0..<length X]" by (simp add: emb)
  have cols: "md_name m \<noteq> ''UMAP1'' \<and> md_name m \<noteq> ''UMAP2'' \<longrightarrow>
               df_columns emb =
                 [(''UMAP1'', map (\<lambda>row. Num (row ! 0)) E),
                  (''UMAP2'', map (\<lambda>row. Num (row ! 1)) E),
                  (md_name m, md_values m)]"
    by (auto simp: emb)
  from r keys dist n idx cols
  show "\<exists>fig emb. show_2D_umap fit_transform X m cc sp ps al = Inr (fig, PyDataFrame emb)
          \<and> set (map fst (df_columns emb)) = {''UMAP1'', ''UMAP2'', md_name m}
          \<and> distinct (map fst (df_columns emb))
          \<and> map_of (df_columns emb) (md_name m) = Some (md_values m)
          \<and> df_index emb = [0..<length X]
          \<and> (md_name m \<noteq> ''UMAP1'' \<and> md_name m \<noteq> ''UMAP2'' \<longrightarrow>
               df_columns emb =
                 [(''UMAP1'', map (\<lambda>row. Num (row ! 0)) E),
                  (''UMAP2'', map (\<lambda>row. Num (row ! 1)) E),
                  (md_name m, md_values m)])"
    by blast
qed

theorem show_2D_umap_returns_table_witness:
  "\<exists>fig emb.
     show_2D_umap (\<lambda>random_state n X. Inr (map (\<lambda>row. replicate n 0) X)) [[1], [2]]
       \<lparr>md_name = ''cls'', md_values = [Str ''x'', Str ''a'']\<rparr>
       [(Str ''a'', ''#ff0000'')] None 5 1 = Inr (fig, PyDataFrame emb)
     \<and> df_columns emb =
         [(''UMAP1'', [Num 0, Num 0]), (''UMAP2'', [Num 0, Num 0]),
          (''cls'', [Str ''x'', Str ''a''])]"
proof -
  let ?ft = "\<lambda>(random_state :: int) (n :: nat) (X :: ndarray).
               (Inr (map (\<lambda>row. replicate n 0) X) :: error + ndarray)"
  let ?m = "\<lparr>md_name = ''cls'', md_values = [Str ''x'', Str ''a'']\<rparr>"
  have h1: "?ft 0 2 [[1], [2]] = Inr [[0, 0], [0, 0]]" by (simp add: numeral_2_eq_2)
  have h2: "length [[0, 0], [0, 0 :: real]] = length [[1], [2 :: real]]" by simp
  have h3: "\<forall>row \<in> set [[0, 0], [0, 0 :: real]]. length row = 2" by simp
  have h4: "length (md_values ?m) = length [[1], [2 :: real]]" by simp
  from show_2D_umap_returns_table
    [of ?ft "[[1], [2]]" "[[0, 0], [0, 0]]" ?m None 5 1 "[(Str ''a'', ''#ff0000'')]",
     OF h1 h2 h3 h4, THEN conjunct2, THEN conjunct2]
  show ?thesis by auto
qed

lemma plot_classes_legend:
  assumes "plot_classes coords emb name cc al ps = Inr (calls, handles)"
    and "map_of (df_columns emb) name = Some labs"
    and "\<forall>cn \<in> set coords. map_of (df_columns emb) cn \<noteq> None" and "coords \<noteq> []"
  shows "\<exists>c. handles =
         map (\<lambda>cl. \<lparr>label = cl, markerfacecolor = the (map_of cc cl)\<rparr>)
           (filter (\<lambda>cl. map_of cc cl \<noteq> None) (unique labs))
         @ (if \<exists>l \<in> set labs. map_of cc l = None
            then [\<lparr>label = Str ''Other'', markerfacecolor = c\<rparr>] else [])"
proof -
  from plot_classes_result [OF assms(2,3,4), of cc al ps] assms(1)
  have "handles =
         map (\<lambda>cl. \<lparr>label = cl, markerfacecolor = the (map_of cc cl)\<rparr>)
           (filter (\<lambda>cl. map_of cc cl \<noteq> None) (unique labs))
         @ (if \<exists>l \<in> set labs. map_of cc l = None
            then [\<lparr>label = Str ''Other'',
                   markerfacecolor = (case map_of cc (last (unique labs)) of
                                        Some c \<Rightarrow> c | None \<Rightarrow> ''#808080'')\<rparr>]
            else [])"
    by auto
  then show ?thesis by (rule exI)
qed

lemma plot_classes_rows:
  assumes "plot_classes coords emb name cc al ps = Inr (calls, handles)"
    and "map_of (df_columns emb) name = Some labs"
    and "\<forall>cn \<in> set coords. map_of (df_columns emb) cn \<noteq> None" and "coords \<noteq> []"
    and "length labs = length (df_index emb)"
  shows "mset (concat (map scatter_rows calls))
           = mset (select (map (\<lambda>v. \<not> is_missing v) labs) (df_index emb))"
    and "length calls = length (unique labs)"
proof -
  from plot_classes_result [OF assms(2,3,4), of cc al ps] assms(1)
  have r: "map scatter_rows calls =
         map (\<lambda>c. select (map (\<lambda>v. pd_eq v c) labs) (df_index emb)) (unique labs)"
    by auto
  then show "mset (concat (map scatter_rows calls))
           = mset (select (map (\<lambda>v. \<not> is_missing v) labs) (df_index emb))"
    using classes_partition_rows [OF assms(5)] by simp
  from r have "length (map scatter_rows calls) =
      length (map (\<lambda>c. select (map (\<lambda>v. pd_eq v c) labs) (df_index emb)) (unique labs))"
    by (rule arg_cong)
  then show "length calls = length (unique labs)" by simp
qed

text \<open>
  Where the label column of the table holds the labels of the series, the legend is one
  handle per class that has a colour in \<open>class_colors\<close>, in the order of first appearance,
  followed by one appended handle labelled \<open>Other\<close> if and only if at least one label of
  the series is absent from \<open>class_colors\<close>. That is so in \<open>show_2D_umap\<close> and \<open>show_3D_umap\<close>
  for every series, and in \<open>show_1D_umap\<close> for every series not named \<open>y_distribution\<close>.
\<close>

lemma legend_other_iff_unmapped_label:
  assumes "length (md_values m) = length X"
    and "length (rand (length X)) = length X"
    and "\<forall>k E. fit_transform 0 k X = Inr E \<longrightarrow>
           length E = length X \<and> (\<forall>row \<in> set E. length row = k)"
  shows "(md_name m \<noteq> ''y_distribution'' \<longrightarrow>
          (\<forall>E. fit_transform 0 1 X = Inr E \<longrightarrow>
            (\<exists>fig v c. show_1D_umap fit_transform rand X m cc sp ps al = Inr (fig, v)
              \<and> fig_legend fig =
                  map (\<lambda>cl. \<lparr>label = cl, markerfacecolor = the (map_of cc cl)\<rparr>)
                    (filter (\<lambda>cl. map_of cc cl \<noteq> None) (unique (md_values m)))
                  @ (if \<exists>l \<in> set (md_values m). map_of cc l = None
                     then [\<lparr>label = Str ''Other'', markerfacecolor = c\<rparr>] else []))))
     \<and> (\<forall>E. fit_transform 0 2 X = Inr E \<longrightarrow>
            (\<exists>fig v c. show_2D_umap fit_transform X m cc sp ps al = Inr (fig, v)
              \<and> fig_legend fig =
                  map (\<lambda>cl. \<lparr>label = cl, markerfacecolor = the (map_of cc cl)\<rparr>)
                    (filter (\<lambda>cl. map_of cc cl \<noteq> None) (unique (md_values m)))
                  @ (if \<exists>l \<in> set (md_values m). map_of cc l = None
                     then [\<lparr>label = Str ''Other'', markerfacecolor = c\<rparr>] else [])))
     \<and> (\<forall>E. fit_transform 0 3 X = Inr E \<longrightarrow>
            (\<exists>fig v c. show_3D_umap fit_transform X m cc sp ps al = Inr (fig, v)
              \<and> fig_legend fig =
                  map (\<lambda>cl. \<lparr>label = cl, markerfacecolor = the (map_of cc cl)\<rparr>)
                    (filter (\<lambda>cl. map_of cc cl \<noteq> None) (unique (md_values m)))
                  @ (if \<exists>l \<in> set (md_values m). map_of cc l = None
                     then [\<lparr>label = Str ''Other'', markerfacecolor = c\<rparr>] else [])))"
proof (intro conjI allI impI)
  fix E assume name: "md_name m \<noteq> ''y_distribution''" and E: "fit_transform 0 1 X = Inr E"
  with assms(3) have len: "length E = length X" and rows: "\<forall>row \<in> set E. length row = 1"
    by blast+
  from show_1D_umap_unfold [of fit_transform X E m rand cc sp ps al, OF E len rows assms(1,2)]
  obtain calls handles emb where
    r: "show_1D_umap fit_transform rand X m cc sp ps al =
        Inr (\<lparr>fig_scatter = calls, fig_legend = handles,
              fig_xlabel = ''UMAP 1'', fig_ylabel = ''Random Distribution'',
              fig_zlabel = None, fig_title = ''1 Dimensional UMAP'',
              fig_saved = sp\<rparr>, PyNone)"
    and p: "plot_classes [''UMAP1'', ''y_distribution''] emb (md_name m) cc al ps
         = Inr (calls, handles)"
    and n: "map_of (df_columns emb) (md_name m) =
         Some (if md_name m = ''y_distribution'' then map Num (rand (length X))
               else md_values m)"
    and c: "\<forall>cn \<in> set [''UMAP1'', ''y_distribution'']. map_of (df_columns emb) cn \<noteq> None"
    by blast
  from n name have n': "map_of (df_columns emb) (md_name m) = Some (md_values m)" by simp
  from plot_classes_legend [OF p n' c] obtain col where
    "handles =
       map (\<lambda>cl. \<lparr>label = cl, markerfacecolor = the (map_of cc cl)\<rparr>)
         (filter (\<lambda>cl. map_of cc cl \<noteq> None) (unique (md_values m)))
       @ (if \<exists>l \<in> set (md_values m). map_of cc l = None
          then [\<lparr>label = Str ''Other'', markerfacecolor = col\<rparr>] else [])"
    by auto
  with r show "\<exists>fig v c. show_1D_umap fit_transform rand X m cc sp ps al = Inr (fig, v)
              \<and> fig_legend fig =
                  map (\<lambda>cl. \<lparr>label = cl, markerfacecolor = the (map_of cc cl)\<rparr>)
                    (filter (\<lambda>cl. map_of cc cl \<noteq> None) (unique (md_values m)))
                  @ (if \<exists>l \<in> set (md_values m). map_of cc l = None
                     then [\<lparr>label = Str ''Other'', markerfacecolor = c\<rparr>] else [])"
    by (intro exI [of _ col] exI [of _ PyNone]
        exI [of _ "\<lparr>fig_scatter = calls, fig_legend = handles,
              fig_xlabel = ''UMAP 1'', fig_ylabel = ''Random Distribution'',
              fig_zlabel = None, fig_title = ''1 Dimensional UMAP'',
              fig_saved = sp\<rparr>"]) simp
next
  fix E assume E: "fit_transform 0 2 X = Inr E"
  with assms(3) have len: "length E = length X" and rows: "\<forall>row \<in> set E. length row = 2"
    by blast+
  from show_2D_umap_unfold [of fit_transform X E m cc sp ps al, OF E len rows assms(1)]
  obtain calls handles emb where
    r: "show_2D_umap fit_transform X m cc sp ps al =
        Inr (\<lparr>fig_scatter = calls, fig_legend = handles,
              fig_xlabel = ''UMAP 1'', fig_ylabel = ''UMAP 2'',
              fig_zlabel = None, fig_title = ''2 Dimensional UMAP'',
              fig_saved = sp\<rparr>, PyDataFrame emb)"
    and p: "plot_classes [''UMAP1'', ''UMAP2''] emb (md_name m) cc al ps = Inr (calls, handles)"
    and n: "map_of (df_columns emb) (md_name m) = Some (md_values m)"
    and c: "\<forall>cn \<in> set [''UMAP1'', ''UMAP2'']. map_of (df_columns emb) cn \<noteq> None"
    by blast
  from plot_classes_legend [OF p n c] obtain col where
    "handles =
       map (\<lambda>cl. \<lparr>label = cl, markerfacecolor = the (map_of cc cl)\<rparr>)
         (filter (\<lambda>cl. map_of cc cl \<noteq> None) (unique (md_values m)))
       @ (if \<exists>l \<in> set (md_values m). map_of cc l = None
          then [\<lparr>label = Str ''Other'', markerfacecolor = col\<rparr>] else [])"
    by auto
  with r show "\<exists>fig v c. show_2D_umap fit_transform X m cc sp ps al = Inr (fig, v)
              \<and> fig_legend fig =
                  map (\<lambda>cl. \<lparr>label = cl, markerfacecolor = the (map_of cc cl)\<rparr>)
                    (filter (\<lambda>cl. map_of cc cl \<noteq> None) (unique (md_values m)))
                  @ (if \<exists>l \<in> set (md_values m). map_of cc l = None
                     then [\<lparr>label = Str ''Other'', markerfacecolor = c\<rparr>] else [])"
    by (intro exI [of _ col] exI [of _ "PyDataFrame emb"]
        exI [of _ "\<lparr>fig_scatter = calls, fig_legend = handles,
              fig_xlabel = ''UMAP 1'', fig_ylabel = ''UMAP 2'',
              fig_zlabel = None, fig_title = ''2 Dimensional UMAP'',
              fig_saved = sp\<rparr>"]) simp
next
  fix E assume E: "fit_transform 0 3 X = Inr E"
  with assms(3) have len: "length E = length X" and rows: "\<forall>row \<in> set E. length row = 3"
    by blast+
  from show_3D_umap_unfold [of fit_transform X E m cc sp ps al, OF E len rows assms(1)]
  obtain calls handles emb where
    r: "show_3D_umap fit_transform X m cc sp ps al =
        Inr (\<lparr>fig_scatter = calls, fig_legend = handles,
              fig_xlabel = ''UMAP 1'', fig_ylabel = ''UMAP 2'',
              fig_zlabel = Some ''UMAP 3'', fig_title = ''3 Dimensional UMAP'',
              fig_saved = sp\<rparr>, PyNone)"
    and p: "plot_classes [''UMAP1'', ''UMAP2'', ''UMAP3''] emb (md_name m) cc al ps
         = Inr (calls, handles)"
    and n: "map_of (df_columns emb) (md_name m) = Some (md_values m)"
    and c: "\<forall>cn \<in> set [''UMAP1'', ''UMAP2'', ''UMAP3'']. map_of (df_columns emb) cn \<noteq> None"
    by blast
  from plot_classes_legend [OF p n c] obtain col where
    "handles =
       map (\<lambda>cl. \<lparr>label = cl, markerfacecolor = the (map_of cc cl)\<rparr>)
         (filter (\<lambda>cl. map_of cc cl \<noteq> None) (unique (md_values m)))
       @ (if \<exists>l \<in> set (md_values m). map_of cc l = None
          then [\<lparr>label = Str ''Other'', markerfacecolor = col\<rparr>] else [])"
    by auto
  with r show "\<exists>fig v c. show_3D_umap fit_transform X m cc sp ps al = Inr (fig, v)
              \<and> fig_legend fig =
                  map (\<lambda>cl. \<lparr>label = cl, markerfacecolor = the (map_of cc cl)\<rparr>)
                    (filter (\<lambda>cl. map_of cc cl \<noteq> None) (unique (md_values m)))
                  @ (if \<exists>l \<in> set (md_values m). map_of cc l = None
                     then [\<lparr>label = Str ''Other'', markerfacecolor = c\<rparr>] else [])"
    by (intro exI [of _ col] exI [of _ PyNone]
        exI [of _ "\<lparr>fig_scatter = calls, fig_legend = handles,
              fig_xlabel = ''UMAP 1'', fig_ylabel = ''UMAP 2'',
              fig_zlabel = Some ''UMAP 3'', fig_title = ''3 Dimensional UMAP'',
              fig_saved = sp\<rparr>"]) simp
qed

text \<open>
  Claim C2. \<open>show_1D_umap\<close> writes the labels of the series into the table under the
  series' name (line 157) and then the random values under the name \<open>y_distribution\<close>
  (line 161). For a series named \<open>y_distribution\<close> the second assignment overwrites the
  labels, and the loop runs over the random values. Below, all six labels are \<open>a\<close>, which
  has a colour in \<open>class_colors\<close>: the claim asks for a legend without \<open>Other\<close>, and the
  docstring for points coloured by the metadata. The code draws every point gray and
  the legend is the single handle \<open>Other\<close>.
\<close>

theorem show_1D_umap_labels_overwritten:
  "(case show_1D_umap (\<lambda>random_state n X. Inr (map (\<lambda>row. replicate n 0) X))
           (\<lambda>n. map (\<lambda>i. real i / 8) [0..<n])
           [[1], [2], [3], [4], [5], [6]]
           \<lparr>md_name = ''y_distribution'',
            md_values = [Str ''a'', Str ''a'', Str ''a'', Str ''a'', Str ''a'', Str ''a'']\<rparr>
           [(Str ''a'', ''#ff0000'')] None 5 1 of
      Inl e \<Rightarrow> None
    | Inr (fig, v) \<Rightarrow> Some (fig_legend fig, map sc_c (fig_scatter fig)))
   = Some ([\<lparr>label = Str ''Other'', markerfacecolor = ''#808080''\<rparr>],
           [''#808080'', ''#808080'', ''#808080'', ''#808080'', ''#808080'', ''#808080''])
   \<and> map_of [(Str ''a'', ''#ff0000'')] (Str ''a'') = Some ''#ff0000''"
  by (simp add: show_1D_umap_def embedding_table_def DataFrame_def df_setitem_def
      plot_classes_def df_getitem_def df_loc_def select_def add_other_def initial_state_def
      pd_eq_def is_missing_def upt_rec numeral_2_eq_2 numeral_3_eq_3)

text \<open>
  At the same input the sibling \<open>show_2D_umap\<close> keeps the labels: one red scatter call and
  the single legend handle of class \<open>a\<close>.
\<close>

lemma show_2D_umap_labels_kept:
  "(case show_2D_umap (\<lambda>random_state n X. Inr (map (\<lambda>row. replicate n 0) X))
           [[1], [2], [3], [4], [5], [6]]
           \<lparr>md_name = ''y_distribution'',
            md_values = [Str ''a'', Str ''a'', Str ''a'', Str ''a'', Str ''a'', Str ''a'']\<rparr>
           [(Str ''a'', ''#ff0000'')] None 5 1 of
      Inl e \<Rightarrow> None
    | Inr (fig, v) \<Rightarrow> Some (fig_legend fig, map sc_c (fig_scatter fig)))
   = Some ([\<lparr>label = Str ''a'', markerfacecolor = ''#ff0000''\<rparr>], [''#ff0000''])"
  by (simp add: show_2D_umap_def embedding_table_def DataFrame_def df_setitem_def
      plot_classes_def df_getitem_def df_loc_def select_def add_other_def initial_state_def
      pd_eq_def is_missing_def upt_rec numeral_2_eq_2 numeral_3_eq_3)

lemma select_upt_filter:
  "select (map P labs) [0..<length labs] = filter (\<lambda>i. P (labs ! i)) [0..<length labs]"
proof -
  have "zip labs [0..<length labs] = zip (map ((!) labs) [0..<length labs]) [0..<length labs]"
    by (simp only: map_nth)
  also have "\<dots> = map (\<lambda>i. (labs ! i, i)) [0..<length labs]"
    by (simp add: zip_map1 zip_same_conv_map)
  finally have z: "zip labs [0..<length labs] = map (\<lambda>i. (labs ! i, i)) [0..<length labs]" .
  show ?thesis
    by (simp add: select_filter_zip z filter_map comp_def)
qed

lemma plot_classes_partition:
  assumes "plot_classes coords emb name cc al ps = Inr (calls, handles)"
    and "map_of (df_columns emb) name = Some labs"
    and "\<forall>cn \<in> set coords. map_of (df_columns emb) cn \<noteq> None" and "coords \<noteq> []"
    and "df_index emb = [0..<N]" and "length labs = N"
  shows "\<exists>other. mset (concat (map scatter_rows calls))
         = mset (filter (\<lambda>i. \<not> is_missing (labs ! i)) [0..<N])
     \<and> length calls = length (unique labs)
     \<and> handles = map (\<lambda>cl. \<lparr>label = cl, markerfacecolor = the (map_of cc cl)\<rparr>)
                     (filter (\<lambda>cl. map_of cc cl \<noteq> None) (unique labs)) @ other
     \<and> length other \<le> 1
     \<and> distinct (filter (\<lambda>cl. map_of cc cl \<noteq> None) (unique labs))
     \<and> set (filter (\<lambda>cl. map_of cc cl \<noteq> None) (unique labs))
         = {cl \<in> set labs. map_of cc cl \<noteq> None}"
proof -
  have l: "length labs = length (df_index emb)" using assms(5,6) by simp
  from plot_classes_rows [OF assms(1,2,3,4) l] assms(5)
  have "mset (concat (map scatter_rows calls))
         = mset (select (map (\<lambda>v. \<not> is_missing v) labs) [0..<N])"
    and cnt: "length calls = length (unique labs)"
    by simp_all
  then have rows: "mset (concat (map scatter_rows calls))
         = mset (filter (\<lambda>i. \<not> is_missing (labs ! i)) [0..<N])"
    using select_upt_filter [of "\<lambda>v. \<not> is_missing v" labs] assms(6) by simp
  from plot_classes_legend [OF assms(1,2,3,4)] obtain col where
    h: "handles =
       map (\<lambda>cl. \<lparr>label = cl, markerfacecolor = the (map_of cc cl)\<rparr>)
         (filter (\<lambda>cl. map_of cc cl \<noteq> None) (unique labs))
       @ (if \<exists>l \<in> set labs. map_of cc l = None
          then [\<lparr>label = Str ''Other'', markerfacecolor = col\<rparr>] else [])"
    by blast
  have o: "length (if \<exists>l \<in> set labs. map_of cc l = None
          then [\<lparr>label = Str ''Other'', markerfacecolor = col\<rparr>] else []) \<le> 1"
    by simp
  have d: "distinct (filter (\<lambda>cl. map_of cc cl \<noteq> None) (unique labs))" by simp
  have s: "set (filter (\<lambda>cl. map_of cc cl \<noteq> None) (unique labs))
         = {cl \<in> set labs. map_of cc cl \<noteq> None}"
    by auto
  from rows cnt h o d s show ?thesis by blast
qed

text \<open>
  The loop over the unique values of the table's label column makes one scatter call per
  value. The rows of all calls together are the rows whose label is not a missing value,
  each exactly once; a row with a missing label is in no call. The legend starts with
  exactly one handle for every value of the label column that has a colour in
  \<open>class_colors\<close>, followed by at most one more handle. The label column holds the values of
  the metadata series (in \<open>show_1D_umap\<close> the random values instead, when the series is named
  \<open>y_distribution\<close>).
\<close>

lemma class_loop_partitions_rows:
  assumes "length (md_values m) = length X"
    and "length (rand (length X)) = length X"
    and "\<forall>k E. fit_transform 0 k X = Inr E \<longrightarrow>
           length E = length X \<and> (\<forall>row \<in> set E. length row = k)"
    and "labs1 = (if md_name m = ''y_distribution'' then map Num (rand (length X))
                  else md_values m)"
  shows "(\<forall>E. fit_transform 0 1 X = Inr E \<longrightarrow>
            (\<exists>fig v other. show_1D_umap fit_transform rand X m cc sp ps al = Inr (fig, v)
              \<and> mset (concat (map scatter_rows (fig_scatter fig))) = mset (filter (\<lambda>i. \<not> is_missing (labs1 ! i)) [0..<length X])
              \<and> length (fig_scatter fig) = length (unique labs1)
              \<and> fig_legend fig =
                  map (\<lambda>cl. \<lparr>label = cl, markerfacecolor = the (map_of cc cl)\<rparr>)
                    (filter (\<lambda>cl. map_of cc cl \<noteq> None) (unique labs1)) @ other
              \<and> length other \<le> 1
              \<and> distinct (filter (\<lambda>cl. map_of cc cl \<noteq> None) (unique labs1))
              \<and> set (filter (\<lambda>cl. map_of cc cl \<noteq> None) (unique labs1))
                  = {cl \<in> set labs1. map_of cc cl \<noteq> None}))
     \<and> (\<forall>E. fit_transform 0 2 X = Inr E \<longrightarrow>
            (\<exists>fig v other. show_2D_umap fit_transform X m cc sp ps al = Inr (fig, v)
              \<and> mset (concat (map scatter_rows (fig_scatter fig))) = mset (filter (\<lambda>i. \<not> is_missing (md_values m ! i)) [0..<length X])
              \<and> length (fig_scatter fig) = length (unique (md_values m))
              \<and> fig_legend fig =
                  map (\<lambda>cl. \<lparr>label = cl, markerfacecolor = the (map_of cc cl)\<rparr>)
                    (filter (\<lambda>cl. map_of cc cl \<noteq> None) (unique (md_values m))) @ other
              \<and> length other \<le> 1
              \<and> distinct (filter (\<lambda>cl. map_of cc cl \<noteq> None) (unique (md_values m)))
              \<and> set (filter (\<lambda>cl. map_of cc cl \<noteq> None) (unique (md_values m)))
                  = {cl \<in> set (md_values m). map_of cc cl \<noteq> None}))
     \<and> (\<forall>E. fit_transform 0 3 X = Inr E \<longrightarrow>
            (\<exists>fig v other. show_3D_umap fit_transform X m cc sp ps al = Inr (fig, v)
              \<and> mset (concat (map scatter_rows (fig_scatter fig))) = mset (filter (\<lambda>i. \<not> is_missing (md_values m ! i)) [0..<length X])
              \<and> length (fig_scatter fig) = length (unique (md_values m))
              \<and> fig_legend fig =
                  map (\<lambda>cl. \<lparr>label = cl, markerfacecolor = the (map_of cc cl)\<rparr>)
                    (filter (\<lambda>cl. map_of cc cl \<noteq> None) (unique (md_values m))) @ other
              \<and> length other \<le> 1
              \<and> distinct (filter (\<lambda>cl. map_of cc cl \<noteq> None) (unique (md_values m)))
              \<and> set (filter (\<lambda>cl. map_of cc cl \<noteq> None) (unique (md_values m)))
                  = {cl \<in> set (md_values m). map_of cc cl \<noteq> None}))"
proof (intro conjI allI impI)
  fix E assume E: "fit_transform 0 1 X = Inr E"
  with assms(3) have len: "length E = length X" and rows: "\<forall>row \<in> set E. length row = 1"
    by blast+
  from show_1D_umap_unfold [of fit_transform X E m rand cc sp ps al, OF E len rows assms(1,2)]
  obtain calls handles emb where
    r: "show_1D_umap fit_transform rand X m cc sp ps al =
        Inr (\<lparr>fig_scatter = calls, fig_legend = handles,
              fig_xlabel = ''UMAP 1'', fig_ylabel = ''Random Distribution'',
              fig_zlabel = None, fig_title = ''1 Dimensional UMAP'',
              fig_saved = sp\<rparr>, PyNone)"
    and i: "df_index emb = [0..<length X]"
    and p: "plot_classes [''UMAP1'', ''y_distribution''] emb (md_name m) cc al ps
         = Inr (calls, handles)"
    and n: "map_of (df_columns emb) (md_name m) =
         Some (if md_name m = ''y_distribution'' then map Num (rand (length X))
               else md_values m)"
    and c: "\<forall>cn \<in> set [''UMAP1'', ''y_distribution'']. map_of (df_columns emb) cn \<noteq> None"
    by blast
  from n assms(4) have n': "map_of (df_columns emb) (md_name m) = Some labs1" by simp
  have l: "length labs1 = length X" using assms(1,2,4) by simp
  from plot_classes_partition [OF p n' c _ i l] obtain other where
    "mset (concat (map scatter_rows calls)) = mset (filter (\<lambda>i. \<not> is_missing (labs1 ! i)) [0..<length X])
     \<and> length calls = length (unique labs1)
     \<and> handles = map (\<lambda>cl. \<lparr>label = cl, markerfacecolor = the (map_of cc cl)\<rparr>)
                     (filter (\<lambda>cl. map_of cc cl \<noteq> None) (unique labs1)) @ other
     \<and> length other \<le> 1
     \<and> distinct (filter (\<lambda>cl. map_of cc cl \<noteq> None) (unique labs1))
     \<and> set (filter (\<lambda>cl. map_of cc cl \<noteq> None) (unique labs1))
         = {cl \<in> set labs1. map_of cc cl \<noteq> None}"
    by auto
  with r show "\<exists>fig v other. show_1D_umap fit_transform rand X m cc sp ps al = Inr (fig, v)
              \<and> mset (concat (map scatter_rows (fig_scatter fig))) = mset (filter (\<lambda>i. \<not> is_missing (labs1 ! i)) [0..<length X])
              \<and> length (fig_scatter fig) = length (unique labs1)
              \<and> fig_legend fig =
                  map (\<lambda>cl. \<lparr>label = cl, markerfacecolor = the (map_of cc cl)\<rparr>)
                    (filter (\<lambda>cl. map_of cc cl \<noteq> None) (unique labs1)) @ other
              \<and> length other \<le> 1
              \<and> distinct (filter (\<lambda>cl. map_of cc cl \<noteq> None) (unique labs1))
              \<and> set (filter (\<lambda>cl. map_of cc cl \<noteq> None) (unique labs1))
                  = {cl \<in> set labs1. map_of cc cl \<noteq> None}"
    by (intro exI [of _ other] exI [of _ PyNone]
        exI [of _ "\<lparr>fig_scatter = calls, fig_legend = handles,
              fig_xlabel = ''UMAP 1'', fig_ylabel = ''Random Distribution'',
              fig_zlabel = None, fig_title = ''1 Dimensional UMAP'',
              fig_saved = sp\<rparr>"]) simp
next
  fix E assume E: "fit_transform 0 2 X = Inr E"
  with assms(3) have len: "length E = length X" and rows: "\<forall>row \<in> set E. length row = 2"
    by blast+
  from show_2D_umap_unfold [of fit_transform X E m cc sp ps al, OF E len rows assms(1)]
  obtain calls handles emb where
    r: "show_2D_umap fit_transform X m cc sp ps al =
        Inr (\<lparr>fig_scatter = calls, fig_legend = handles,
              fig_xlabel = ''UMAP 1'', fig_ylabel = ''UMAP 2'',
              fig_zlabel = None, fig_title = ''2 Dimensional UMAP'',
              fig_saved = sp\<rparr>, PyDataFrame emb)"
    and e: "emb = \<lparr>df_index = [0..<length X],
          df_columns = AList.update (md_name m) (md_values m)
            [(''UMAP1'', map (\<lambda>row. Num (row ! 0)) E),
             (''UMAP2'', map (\<lambda>row. Num (row ! 1)) E)]\<rparr>"
    and p: "plot_classes [''UMAP1'', ''UMAP2''] emb (md_name m) cc al ps = Inr (calls, handles)"
    and n: "map_of (df_columns emb) (md_name m) = Some (md_values m)"
    and c: "\<forall>cn \<in> set [''UMAP1'', ''UMAP2'']. map_of (df_columns emb) cn \<noteq> None"
    by blast
  have i: "df_index emb = [0..<length X]" by (simp add: e)
  from plot_classes_partition [OF p n c _ i assms(1)] obtain other where
    "mset (concat (map scatter_rows calls)) = mset (filter (\<lambda>i. \<not> is_missing (md_values m ! i)) [0..<length X])
     \<and> length calls = length (unique (md_values m))
     \<and> handles = map (\<lambda>cl. \<lparr>label = cl, markerfacecolor = the (map_of cc cl)\<rparr>)
                     (filter (\<lambda>cl. map_of cc cl \<noteq> None) (unique (md_values m))) @ other
     \<and> length other \<le> 1
     \<and> distinct (filter (\<lambda>cl. map_of cc cl \<noteq> None) (unique (md_values m)))
     \<and> set (filter (\<lambda>cl. map_of cc cl \<noteq> None) (unique (md_values m)))
         = {cl \<in> set (md_values m). map_of cc cl \<noteq> None}"
    by auto
  with r show "\<exists>fig v other. show_2D_umap fit_transform X m cc sp ps al = Inr (fig, v)
              \<and> mset (concat (map scatter_rows (fig_scatter fig))) = mset (filter (\<lambda>i. \<not> is_missing (md_values m ! i)) [0..<length X])
              \<and> length (fig_scatter fig) = length (unique (md_values m))
              \<and> fig_legend fig =
                  map (\<lambda>cl. \<lparr>label = cl, markerfacecolor = the (map_of cc cl)\<rparr>)
                    (filter (\<lambda>cl. map_of cc cl \<noteq> None) (unique (md_values m))) @ other
              \<and> length other \<le> 1
              \<and> distinct (filter (\<lambda>cl. map_of cc cl \<noteq> None) (unique (md_values m)))
              \<and> set (filter (\<lambda>cl. map_of cc cl \<noteq> None) (unique (md_values m)))
                  = {cl \<in> set (md_values m). map_of cc cl \<noteq> None}"
    by (intro exI [of _ other] exI [of _ "PyDataFrame emb"]
        exI [of _ "\<lparr>fig_scatter = calls, fig_legend = handles,
              fig_xlabel = ''UMAP 1'', fig_ylabel = ''UMAP 2'',
              fig_zlabel = None, fig_title = ''2 Dimensional UMAP'',
              fig_saved = sp\<rparr>"]) simp
next
  fix E assume E: "fit_transform 0 3 X = Inr E"
  with assms(3) have len: "length E = length X" and rows: "\<forall>row \<in> set E. length row = 3"
    by blast+
  from show_3D_umap_unfold [of fit_transform X E m cc sp ps al, OF E len rows assms(1)]
  obtain calls handles emb where
    r: "show_3D_umap fit_transform X m cc sp ps al =
        Inr (\<lparr>fig_scatter = calls, fig_legend = handles,
              fig_xlabel = ''UMAP 1'', fig_ylabel = ''UMAP 2'',
              fig_zlabel = Some ''UMAP 3'', fig_title = ''3 Dimensional UMAP'',
              fig_saved = sp\<rparr>, PyNone)"
    and i: "df_index emb = [0..<length X]"
    and p: "plot_classes [''UMAP1'', ''UMAP2'', ''UMAP3''] emb (md_name m) cc al ps
         = Inr (calls, handles)"
    and n: "map_of (df_columns emb) (md_name m) = Some (md_values m)"
    and c: "\<forall>cn \<in> set [''UMAP1'', ''UMAP2'', ''UMAP3'']. map_of (df_columns emb) cn \<noteq> None"
    by blast
  from plot_classes_partition [OF p n c _ i assms(1)] obtain other where
    "mset (concat (map scatter_rows calls)) = mset (filter (\<lambda>i. \<not> is_missing (md_values m ! i)) [0..<length X])
     \<and> length calls = length (unique (md_values m))
     \<and> handles = map (\<lambda>cl. \<lparr>label = cl, markerfacecolor = the (map_of cc cl)\<rparr>)
                     (filter (\<lambda>cl. map_of cc cl \<noteq> None) (unique (md_values m))) @ other
     \<and> length other \<le> 1
     \<and> distinct (filter (\<lambda>cl. map_of cc cl \<noteq> None) (unique (md_values m)))
     \<and> set (filter (\<lambda>cl. map_of cc cl \<noteq> None) (unique (md_values m)))
         = {cl \<in> set (md_values m). map_of cc cl \<noteq> None}"
    by auto
  with r show "\<exists>fig v other. show_3D_umap fit_transform X m cc sp ps al = Inr (fig, v)
              \<and> mset (concat (map scatter_rows (fig_scatter fig))) = mset (filter (\<lambda>i. \<not> is_missing (md_values m ! i)) [0..<length X])
              \<and> length (fig_scatter fig) = length (unique (md_values m))
              \<and> fig_legend fig =
                  map (\<lambda>cl. \<lparr>label = cl, markerfacecolor = the (map_of cc cl)\<rparr>)
                    (filter (\<lambda>cl. map_of cc cl \<noteq> None) (unique (md_values m))) @ other
              \<and> length other \<le> 1
              \<and> distinct (filter (\<lambda>cl. map_of cc cl \<noteq> None) (unique (md_values m)))
              \<and> set (filter (\<lambda>cl. map_of cc cl \<noteq> None) (unique (md_values m)))
                  = {cl \<in> set (md_values m). map_of cc cl \<noteq> None}"
    by (intro exI [of _ other] exI [of _ PyNone]
        exI [of _ "\<lparr>fig_scatter = calls, fig_legend = handles,
              fig_xlabel = ''UMAP 1'', fig_ylabel = ''UMAP 2'',
              fig_zlabel = Some ''UMAP 3'', fig_title = ''3 Dimensional UMAP'',
              fig_saved = sp\<rparr>"]) simp
qed

text \<open>
  Claim C10. The rows of the embedding are not partitioned when a label is missing.
  Below, row 3 of six has the label \<open>NaN\<close>: \<open>unique()\<close> gives the classes \<open>a\<close> and \<open>NaN\<close>, the
  comparison with \<open>NaN\<close> selects no row, and the scatter call of that class is empty. Row 3
  is in no scatter call, although the loop takes the gray branch for its class and the
  legend shows \<open>Other\<close>. The docstring says that classes without a colour in \<open>class_colors\<close>
  are drawn gray.
\<close>

theorem show_2D_umap_missing_label_not_drawn:
  "(case show_2D_umap (\<lambda>random_state n X. Inr (map (\<lambda>row. replicate n 0) X))
           [[1], [2], [3], [4], [5], [6]]
           \<lparr>md_name = ''cls'',
            md_values = [Str ''a'', Str ''a'', Str ''a'', NaN, Str ''a'', Str ''a'']\<rparr>
           [(Str ''a'', ''#ff0000'')] None 5 1 of
      Inl e \<Rightarrow> None
    | Inr (fig, v) \<Rightarrow>
        Some (map scatter_rows (fig_scatter fig), map sc_c (fig_scatter fig), fig_legend fig))
   = Some ([[0, 1, 2, 4, 5], []], [''#ff0000'', ''#808080''],
           [\<lparr>label = Str ''a'', markerfacecolor = ''#ff0000''\<rparr>,
            \<lparr>label = Str ''Other'', markerfacecolor = ''#808080''\<rparr>])"
  by (simp add: show_2D_umap_def embedding_table_def DataFrame_def df_setitem_def
      plot_classes_def df_getitem_def df_loc_def select_def add_other_def initial_state_def
      scatter_rows_def pd_eq_def is_missing_def upt_rec numeral_2_eq_2 numeral_3_eq_3)

end
